theory Spec2Isabelle
  imports Main "HOL-Library.Sublist"
begin

section \<open>Strings: the standard-library functions the package calls\<close>

text \<open>
  Go strings are byte sequences; they are modelled as \<open>string\<close> (a list of bytes).
  \<open>strings.ToUpper\<close>, \<open>strings.TrimSpace\<close> are modelled on ASCII, where the names of
  environment variables live; bytes outside ASCII are left unchanged.
\<close>

definition upper_byte :: "char \<Rightarrow> char" where
  "upper_byte c =
     (case map_of (zip ''abcdefghijklmnopqrstuvwxyz'' ''ABCDEFGHIJKLMNOPQRSTUVWXYZ'') c of
        Some u \<Rightarrow> u
      | None \<Rightarrow> c)"

definition ToUpper :: "string \<Rightarrow> string" where
  "ToUpper s = map upper_byte s"

text \<open>\<open>strings.HasSuffix\<close>: \<open>len(s) >= len(suffix) && s[len(s)-len(suffix):] == suffix\<close>.\<close>

definition HasSuffix :: "string \<Rightarrow> string \<Rightarrow> bool" where
  "HasSuffix s suf = (length suf \<le> length s \<and> drop (length s - length suf) s = suf)"

text \<open>\<open>strings.TrimSuffix\<close>: the string without the suffix when it ends with it.\<close>

definition TrimSuffix :: "string \<Rightarrow> string \<Rightarrow> string" where
  "TrimSuffix s suf = (if HasSuffix s suf then take (length s - length suf) s else s)"

text \<open>\<open>strings.Contains\<close>: the substring occurs at some position.\<close>

fun Contains :: "string \<Rightarrow> string \<Rightarrow> bool" where
  "Contains [] sub = (sub = [])"
| "Contains (c # s) sub = (prefix sub (c # s) \<or> Contains s sub)"

definition isSpace :: "char \<Rightarrow> bool" where
  "isSpace c = (c \<in> set [CHR 0x09, CHR 0x0A, CHR 0x0B, CHR 0x0C, CHR 0x0D, CHR 0x20])"

definition TrimSpace :: "string \<Rightarrow> string" where
  "TrimSpace s = rev (dropWhile isSpace (rev (dropWhile isSpace s)))"

text \<open>\<open>strings.Split(tag, ",")[0]\<close>: the part before the first comma.\<close>

definition Split_comma_first :: "string \<Rightarrow> string" where
  "Split_comma_first s = takeWhile (\<lambda>c. c \<noteq> CHR '','') s"

text \<open>
  \<open>path.Ext\<close>: scanning from the end of the path up to the last slash, the suffix that
  starts at the first dot met; empty when there is none. The scan works on the reversed
  path and rebuilds the suffix in \<open>acc\<close>.
\<close>

fun Ext_scan :: "string \<Rightarrow> string \<Rightarrow> string" where
  "Ext_scan [] acc = []"
| "Ext_scan (c # r) acc =
     (if c = CHR ''/'' then []
      else if c = CHR ''.'' then c # acc
      else Ext_scan r (c # acc))"

definition Ext :: "string \<Rightarrow> string" where
  "Ext p = Ext_scan (rev p) []"

text \<open>\<open>fmt.Sprint(i)\<close> for a loop index: its decimal digits.\<close>

definition digit_char :: "nat \<Rightarrow> char" where
  "digit_char d = ''0123456789'' ! d"

fun Sprint :: "nat \<Rightarrow> string" where
  "Sprint n = (if n < 10 then [digit_char n] else Sprint (n div 10) @ [digit_char (n mod 10)])"

declare Sprint.simps [simp del]

section \<open>Errors\<close>

text \<open>
  The error values that travel through the package: \<open>errors.New\<close>/\<open>fmt.Errorf\<close> values,
  the package's own \<open>UnmatchedTomlKeysError\<close>, the YAML library's \<open>*yaml.TypeError\<close>, any
  other error of a library or of the operating system (with its message), and the
  run-time panic of an index out of range.
\<close>

type_synonym toml_Key = "string list"

datatype error =
    ErrorString string
  | UnmatchedTomlKeysError "toml_Key list"
  | YamlTypeError "string list"
  | ExternalError string
  | Panic string

fun join :: "string \<Rightarrow> string list \<Rightarrow> string" where
  "join sep [] = []"
| "join sep [x] = x"
| "join sep (x # y # ys) = x @ sep @ join sep (y # ys)"

text \<open>The \<open>Error()\<close> method. A TOML key prints as its dotted path.\<close>

fun Error :: "error \<Rightarrow> string" where
  "Error (ErrorString s) = s"
| "Error (UnmatchedTomlKeysError ks) =
     ''There are keys in the config file that do not match any field in the given struct: ''
       @ ''['' @ join '' '' (map (join ''.'') ks) @ '']''"
| "Error (YamlTypeError es) = ''yaml: unmarshal errors:'' @ [CHR 0x0A] @ ''  '' @ join ([CHR 0x0A] @ ''  '') es"
| "Error (ExternalError s) = s"
| "Error (Panic s) = s"

text \<open>The type assertions \<open>err.(*UnmatchedTomlKeysError)\<close> and \<open>err.(*yaml.TypeError)\<close>.\<close>

fun isUnmatchedTomlKeysError :: "error \<Rightarrow> bool" where
  "isUnmatchedTomlKeysError (UnmatchedTomlKeysError ks) = True"
| "isUnmatchedTomlKeysError e = False"

fun isYamlTypeError :: "error \<Rightarrow> bool" where
  "isYamlTypeError (YamlTypeError es) = True"
| "isYamlTypeError e = False"

section \<open>The session and the process around it\<close>

record Config =
  Environment :: string
  ENVPrefix :: string
  Debug :: bool
  Verbose :: bool
  ErrorOnUnmatchedKeys :: bool

record Configor =
  Config :: Config
  globalPrefix :: string

text \<open>
  What the package reads of its process: the environment variables (\<open>os.Getenv\<close> gives
  the empty string for a variable that is not set), the program arguments, the file
  system (\<open>os.Stat\<close> gives an error, here \<open>None\<close>, or says whether the mode is regular) and
  \<open>ioutil.ReadFile\<close>. The package never writes any of them.
\<close>

record process =
  Getenv :: "string \<Rightarrow> string"
  Args :: "string list"
  Stat :: "string \<Rightarrow> bool option"
  ReadFile :: "string \<Rightarrow> error + string"

definition getEnvPrefix :: "Config \<Rightarrow> process \<Rightarrow> string" where
  "getEnvPrefix c p =
     (let prefix = Getenv p ''CONFIGOR_ENV_PREFIX'' in
      if prefix \<noteq> [] then (if prefix = ''-'' then [] else prefix)
      else if ENVPrefix c = ''-'' then []
      else if ENVPrefix c = [] then ''Configor''
      else ENVPrefix c)"

text \<open>\<open>New\<close>; a nil configuration is \<open>None\<close> and becomes the zero \<open>Config\<close>.\<close>

definition zero_Config :: Config where
  "zero_Config =
     \<lparr>Environment = [], ENVPrefix = [], Debug = False, Verbose = False,
      ErrorOnUnmatchedKeys = False\<rparr>"

definition New :: "Config option \<Rightarrow> process \<Rightarrow> Configor" where
  "New config p =
     (let c0 = (case config of None \<Rightarrow> zero_Config | Some c \<Rightarrow> c);
          c1 = (if Getenv p ''CONFIGOR_DEBUG_MODE'' \<noteq> [] then c0\<lparr>Debug := True\<rparr> else c0);
          c2 = (if Getenv p ''CONFIGOR_VERBOSE_MODE'' \<noteq> [] then c1\<lparr>Verbose := True\<rparr> else c1)
      in \<lparr>Config = c2, globalPrefix = getEnvPrefix c2 p\<rparr>)"

text \<open>
  \<open>testRegexp = regexp.MustCompile("_test|(\\.test$)")\<close> and its \<open>MatchString\<close>: the text
  contains \<open>_test\<close>, or it ends with \<open>.test\<close>.
\<close>

definition testRegexp_MatchString :: "string \<Rightarrow> bool" where
  "testRegexp_MatchString s = (Contains s ''_test'' \<or> HasSuffix s ''.test'')"

text \<open>
  \<open>GetEnvironment\<close>. \<open>os.Args[0]\<close> panics when the process has no argument at all.
\<close>

definition GetEnvironment :: "Configor \<Rightarrow> process \<Rightarrow> error + string" where
  "GetEnvironment c p =
     (if Environment (Config c) = [] then
        (let env = Getenv p ''CONFIGOR_ENV'' in
         if env \<noteq> [] then Inr env
         else (case Args p of
                 [] \<Rightarrow> Inl (Panic ''index out of range'')
               | a # _ \<Rightarrow>
                   if testRegexp_MatchString a then Inr ''test'' else Inr ''development''))
      else Inr (Environment (Config c)))"

definition GetErrorOnUnmatchedKeys :: "Configor \<Rightarrow> bool" where
  "GetErrorOnUnmatchedKeys c = ErrorOnUnmatchedKeys (Config c)"

section \<open>The file resolver\<close>

definition IsRegularFile :: "process \<Rightarrow> string \<Rightarrow> bool" where
  "IsRegularFile p f = (Stat p f = Some True)"

definition envFileName :: "string \<Rightarrow> string \<Rightarrow> string" where
  "envFileName file env =
     (let extname = Ext file in
      if extname = [] then file @ ''.'' @ env
      else TrimSuffix file extname @ ''.'' @ env @ extname)"

definition getConfigurationFileWithENVPrefix :: "process \<Rightarrow> string \<Rightarrow> string \<Rightarrow> error + string" where
  "getConfigurationFileWithENVPrefix p file env =
     (let envFile = envFileName file env in
      if IsRegularFile p envFile then Inr envFile
      else Inl (ErrorString (''failed to find file '' @ file)))"

text \<open>
  The body of the loop of \<open>getConfigurationFiles\<close> for one candidate, with \<open>results\<close>
  threaded through as the source appends to it. The environment name is asked for again
  at every candidate.
\<close>

definition filesForCandidate ::
  "Configor \<Rightarrow> process \<Rightarrow> string list \<Rightarrow> string \<Rightarrow> error + string list" where
  "filesForCandidate c p results file =
     (let foundFile0 = IsRegularFile p file;
          results1 = (if foundFile0 then results @ [file] else results)
      in case GetEnvironment c p of
           Inl e \<Rightarrow> Inl e
         | Inr env \<Rightarrow>
             (let r = getConfigurationFileWithENVPrefix p file env;
                  foundFile1 = (case r of Inr _ \<Rightarrow> True | Inl _ \<Rightarrow> foundFile0);
                  results2 = (case r of Inr f \<Rightarrow> results1 @ [f] | Inl _ \<Rightarrow> results1)
              in if \<not> foundFile1 then
                   (case getConfigurationFileWithENVPrefix p file ''example'' of
                      Inr example \<Rightarrow> Inr (results2 @ [example])
                    | Inl _ \<Rightarrow> Inr results2)
                 else Inr results2))"

text \<open>
  The loop \<open>for i := len(files) - 1; i >= 0; i--\<close>, as a recursion over the candidates
  still to visit, last one first: \<open>todo\<close> is the reversed rest of \<open>files\<close>.
\<close>

fun getConfigurationFiles_loop ::
  "Configor \<Rightarrow> process \<Rightarrow> string list \<Rightarrow> string list \<Rightarrow> error + string list" where
  "getConfigurationFiles_loop c p results [] = Inr results"
| "getConfigurationFiles_loop c p results (file # todo) =
     (case filesForCandidate c p results file of
        Inl e \<Rightarrow> Inl e
      | Inr results' \<Rightarrow> getConfigurationFiles_loop c p results' todo)"

text \<open>
  \<open>getConfigurationFiles\<close>. With \<open>Debug\<close> or \<open>Verbose\<close> the environment name is printed
  first, which evaluates \<open>GetEnvironment\<close>; printing itself has no effect here.
\<close>

definition getConfigurationFiles :: "Configor \<Rightarrow> process \<Rightarrow> string list \<Rightarrow> error + string list" where
  "getConfigurationFiles c p files =
     (case (if Debug (Config c) \<or> Verbose (Config c) then GetEnvironment c p else Inr [])
      of Inl e \<Rightarrow> Inl e
       | Inr _ \<Rightarrow> getConfigurationFiles_loop c p [] (rev files))"

section \<open>Reflected types and values of the target\<close>

text \<open>
  The target of \<open>Load\<close> is walked by reflection. A \<open>reflect.StructField\<close> is a record of
  what the walk reads of it: the name, the struct tag as its parsed key/value pairs (the
  first pair of a key is the one \<open>Tag.Get\<close> finds; a missing key reads as the empty
  string), the embedding flag, and the package path, which is empty exactly for an
  exported field. Types are finite trees over three scalar types, pointers, slices and
  structs (so a type that contains itself through a pointer is outside the model), and a
  value is a tree of the same shape: a pointer is nil (\<open>VPtr None\<close>) or owns its pointee, a
  slice is nil (\<open>VSlice None\<close>) or holds its elements, so that two fields never share a
  pointee.
\<close>

record StructField =
  Name :: string
  Tag :: "(string \<times> string) list"
  Anonymous :: bool
  PkgPath :: string

datatype ty = TString | TInt | TBool | TPtr ty | TSlice ty | TStruct "(StructField \<times> ty) list"

datatype val =
    VString string
  | VInt int
  | VBool bool
  | VPtr "val option"
  | VSlice "val list option"
  | VStruct "val list"

text \<open>\<open>reflect.Zero\<close>: the zero value of a type.\<close>

fun zero :: "ty \<Rightarrow> val" where
  "zero TString = VString []"
| "zero TInt = VInt 0"
| "zero TBool = VBool False"
| "zero (TPtr t) = VPtr None"
| "zero (TSlice t) = VSlice None"
| "zero (TStruct fds) = VStruct (map (\<lambda>fd. zero (snd fd)) fds)"

definition Tag_Get :: "(string \<times> string) list \<Rightarrow> string \<Rightarrow> string" where
  "Tag_Get tag key = (case map_of tag key of Some v \<Rightarrow> v | None \<Rightarrow> [])"

section \<open>Names of environment variables\<close>

definition getJsonTag :: "StructField \<Rightarrow> string" where
  "getJsonTag fieldStruct =
     (let tag = Tag_Get (Tag fieldStruct) ''json'' in
      if length tag > 0 \<and> tag \<noteq> ''-'' then
        (let v = TrimSpace (TrimSpace (Split_comma_first tag)) in
         if length v > 0 \<and> v \<noteq> ''-'' then v else [])
      else [])"

text \<open>
  \<open>getPrefixForStruct\<close>. Each of its two \<open>range\<close> loops appends one name per prefix to
  \<open>result\<close>; a loop is a left fold over the prefixes (\<open>pfxs\<close>; \<open>prefixes\<close> in the source).
\<close>

definition getPrefixForStruct :: "string list \<Rightarrow> StructField \<Rightarrow> string list" where
  "getPrefixForStruct pfxs fieldStruct =
     (if Anonymous fieldStruct \<and> Tag_Get (Tag fieldStruct) ''anonymous'' = ''true'' then pfxs
      else
        (let result0 = foldl (\<lambda>result p. result @ [p @ ''_'' @ Name fieldStruct]) [] pfxs;
             jsonName = getJsonTag fieldStruct;
             result1 = (if jsonName \<noteq> []
                        then foldl (\<lambda>result p. result @ [p @ ''_'' @ jsonName]) result0 pfxs
                        else result0)
         in if length result1 = 0
            then (if jsonName \<noteq> [] then [Name fieldStruct] @ [jsonName] else [Name fieldStruct])
            else result1))"

text \<open>The \<open>range\<close> loop of \<open>getEnvironmentVariables\<close> over the prefixes.\<close>

fun getEnvironmentVariables_loop ::
  "string \<Rightarrow> string \<Rightarrow> string list \<Rightarrow> string list \<Rightarrow> string list" where
  "getEnvironmentVariables_loop fieldName jsonTagValue result [] = result"
| "getEnvironmentVariables_loop fieldName jsonTagValue result (pfx # pfxs) =
     (let name = pfx @ ''_'' @ fieldName;
          result1 = result @ [name, ToUpper name];
          result2 = (if length jsonTagValue > 0
                     then (let name2 = pfx @ ''_'' @ jsonTagValue
                           in result1 @ [name2, ToUpper name2])
                     else result1)
      in getEnvironmentVariables_loop fieldName jsonTagValue result2 pfxs)"

definition getEnvironmentVariables :: "Configor \<Rightarrow> StructField \<Rightarrow> string list \<Rightarrow> string list" where
  "getEnvironmentVariables c fieldStruct pfxs =
     (let envTagValue = Tag_Get (Tag fieldStruct) ''env'';
          jsonTagValue = getJsonTag fieldStruct
      in if envTagValue \<noteq> [] then
           (let result = [envTagValue] in
            if length (globalPrefix c) > 0
            then result @ [globalPrefix c @ ''_'' @ envTagValue,
                            ToUpper (globalPrefix c) @ ''_'' @ envTagValue]
            else result)
         else
           (let result = getEnvironmentVariables_loop (Name fieldStruct) jsonTagValue [] pfxs
            in if length result = 0 then
                 (let result' = [Name fieldStruct, ToUpper (Name fieldStruct)]
                  in if length jsonTagValue > 0
                     then result' @ [jsonTagValue, ToUpper jsonTagValue]
                     else result')
               else result))"

section \<open>The format decoders\<close>

text \<open>
  The decoders are outside the package: \<open>yaml.Unmarshal\<close>, \<open>yaml.UnmarshalStrict\<close> and
  \<open>toml.Decode\<close> are libraries, and \<open>unmarshalJSON\<close> is the package's wrapper of
  \<open>encoding/json\<close>. They are parameters of the model. A decoder is given the bytes and
  the variable its pointer argument points to (its type and what it holds), and answers
  what the variable holds afterwards and the error, if any; \<open>toml.Decode\<close> also answers
  the keys of \<open>metadata.Undecoded()\<close>.
\<close>

record decoders =
  yaml_Unmarshal :: "string \<Rightarrow> ty \<Rightarrow> val \<Rightarrow> val \<times> error option"
  yaml_UnmarshalStrict :: "string \<Rightarrow> ty \<Rightarrow> val \<Rightarrow> val \<times> error option"
  toml_Decode :: "string \<Rightarrow> ty \<Rightarrow> val \<Rightarrow> val \<times> toml_Key list \<times> error option"
  unmarshalJSON :: "string \<Rightarrow> ty \<Rightarrow> val \<Rightarrow> bool \<Rightarrow> val \<times> error option"

definition unmarshalToml ::
  "decoders \<Rightarrow> string \<Rightarrow> ty \<Rightarrow> val \<Rightarrow> bool \<Rightarrow> val \<times> error option" where
  "unmarshalToml d content t config errorOnUnmatchedKeys =
     (case toml_Decode d content t config of
        (config', undecoded, err) \<Rightarrow>
          if err = None \<and> length undecoded > 0 \<and> errorOnUnmatchedKeys
          then (config', Some (UnmatchedTomlKeysError undecoded))
          else (config', err))"

definition yaml_by_mode :: "decoders \<Rightarrow> bool \<Rightarrow> string \<Rightarrow> ty \<Rightarrow> val \<Rightarrow> val \<times> error option" where
  "yaml_by_mode d errorOnUnmatchedKeys =
     (if errorOnUnmatchedKeys then yaml_UnmarshalStrict d else yaml_Unmarshal d)"

text \<open>
  \<open>processFile\<close>. A decoder that fails may have written part of the target already; the
  next format tried starts from what is there.
\<close>

definition processFile ::
  "decoders \<Rightarrow> process \<Rightarrow> ty \<Rightarrow> val \<Rightarrow> string \<Rightarrow> bool \<Rightarrow> val \<times> error option" where
  "processFile d p t config file errorOnUnmatchedKeys =
     (case ReadFile p file of
        Inl err \<Rightarrow> (config, Some err)
      | Inr content \<Rightarrow>
          if HasSuffix file ''.yaml'' \<or> HasSuffix file ''.yml'' then
            yaml_by_mode d errorOnUnmatchedKeys content t config
          else if HasSuffix file ''.toml'' then
            unmarshalToml d content t config errorOnUnmatchedKeys
          else if HasSuffix file ''.json'' then
            unmarshalJSON d content t config errorOnUnmatchedKeys
          else
            (case unmarshalToml d content t config errorOnUnmatchedKeys of
               (c1, None) \<Rightarrow> (c1, None)
             | (c1, Some tomlErr) \<Rightarrow>
                 if isUnmatchedTomlKeysError tomlErr then (c1, Some tomlErr)
                 else
                   (case unmarshalJSON d content t c1 errorOnUnmatchedKeys of
                      (c2, None) \<Rightarrow> (c2, None)
                    | (c2, Some jsonErr) \<Rightarrow>
                        if Contains (Error jsonErr) ''json: unknown field'' then (c2, Some jsonErr)
                        else
                          (case yaml_by_mode d errorOnUnmatchedKeys content t c2 of
                             (c3, None) \<Rightarrow> (c3, None)
                           | (c3, Some yamlError) \<Rightarrow>
                               if isYamlTypeError yamlError then (c3, Some yamlError)
                               else (c3, Some (ErrorString ''failed to decode config''))))))"

section \<open>The field walk\<close>

text \<open>
  The step "Load From Shell ENV": the first name whose variable is not empty is
  unmarshalled into the field, and the loop ends there, with or without an error.
\<close>

fun loadFromShellENV ::
  "process \<Rightarrow> decoders \<Rightarrow> ty \<Rightarrow> val \<Rightarrow> string list \<Rightarrow> val \<times> error option" where
  "loadFromShellENV p d t field [] = (field, None)"
| "loadFromShellENV p d t field (env # envNames) =
     (if Getenv p env \<noteq> [] then yaml_Unmarshal d (Getenv p env) t field
      else loadFromShellENV p d t field envNames)"

text \<open>
  The step on a blank field. \<open>reflect.DeepEqual\<close> with the zero value of the field's type
  is equality with \<open>zero t\<close>: values are trees, and a nil slice differs from an empty one.
\<close>

definition defaultOrRequired ::
  "decoders \<Rightarrow> StructField \<Rightarrow> string list \<Rightarrow> ty \<Rightarrow> val \<Rightarrow> val \<times> error option" where
  "defaultOrRequired d fieldStruct envNames t field =
     (if field = zero t then
        (if Tag_Get (Tag fieldStruct) ''default'' \<noteq> [] then
           yaml_Unmarshal d (Tag_Get (Tag fieldStruct) ''default'') t field
         else if Tag_Get (Tag fieldStruct) ''required'' = ''true'' then
           (let name = (if length envNames > 0 then ToUpper (last envNames)
                        else Name fieldStruct)
            in (field, Some (ErrorString (name @ '' is required, but blank''))))
         else (field, None))
      else (field, None))"

text \<open>
  A nil pointer field: \<open>field = reflect.New(field.Type().Elem()).Elem()\<close> makes \<open>field\<close> a
  fresh zero value of the pointee's type; the struct's own field is not touched.
\<close>

fun isNilPtr :: "ty \<Rightarrow> val \<Rightarrow> bool" where
  "isNilPtr (TPtr t) (VPtr None) = True"
| "isNilPtr t v = False"

fun fieldType :: "ty \<Rightarrow> val \<Rightarrow> ty" where
  "fieldType (TPtr t) (VPtr None) = t"
| "fieldType t v = t"

fun fieldValue :: "ty \<Rightarrow> val \<Rightarrow> val" where
  "fieldValue (TPtr t) (VPtr None) = zero t"
| "fieldValue t v = v"

text \<open>
  What the struct's field holds after the walk has worked on \<open>field\<close>: the new contents
  when \<open>field\<close> is the struct's field itself, the old nil pointer when \<open>field\<close> was the
  fresh value.
\<close>

definition stored :: "ty \<Rightarrow> val \<Rightarrow> val \<Rightarrow> val" where
  "stored t v field = (if isNilPtr t v then v else field)"

text \<open>\<open>reflect.Indirect(field.Index(i)).Kind() == reflect.Struct\<close>.\<close>

fun indirectIsStruct :: "val \<Rightarrow> bool" where
  "indirectIsStruct (VStruct vs) = True"
| "indirectIsStruct (VPtr (Some (VStruct vs))) = True"
| "indirectIsStruct v = False"

definition invalidConfig :: error where
  "invalidConfig = ErrorString ''invalid config, should be struct''"

text \<open>
  \<open>processTags\<close>, on the variable its argument points to: its type \<open>t\<close> and what it holds.
  The answer is what the variable holds when the function returns, and the error
  returned, if any. Every call of the source passes a pointer (\<open>Load\<close> the caller's,
  the recursive calls \<open>field.Addr()\<close>), so every field met is addressable, and
  \<open>CanInterface\<close> fails exactly on an unexported field of the struct; the fresh value of a
  nil pointer passes both tests.

  \<^item> \<open>processTags\<close> is the kind test and the loop over the fields (\<open>processTags_fields\<close>);
  \<^item> \<open>processField\<close> is the body of that loop for one field;
  \<^item> \<open>descend\<close> is the loop \<open>for field.Kind() == reflect.Ptr\<close> followed by the two
    tests on the kind: through a nil pointer \<open>field.Elem()\<close> is the invalid value, which
    is neither a struct nor a slice;
  \<^item> \<open>processElems\<close> is the loop over the elements of a slice, from index \<open>i\<close>.

  A value that does not have the shape of its type is left as it is.
\<close>

function (sequential)
  processTags ::
    "Configor \<Rightarrow> process \<Rightarrow> decoders \<Rightarrow> ty \<Rightarrow> val \<Rightarrow> string list \<Rightarrow> val \<times> error option"
  and processTags_fields ::
    "Configor \<Rightarrow> process \<Rightarrow> decoders \<Rightarrow> (StructField \<times> ty) list \<Rightarrow> val list \<Rightarrow> string list
       \<Rightarrow> val list \<times> error option"
  and processField ::
    "Configor \<Rightarrow> process \<Rightarrow> decoders \<Rightarrow> StructField \<Rightarrow> ty \<Rightarrow> val \<Rightarrow> string list
       \<Rightarrow> val \<times> error option"
  and descend ::
    "Configor \<Rightarrow> process \<Rightarrow> decoders \<Rightarrow> StructField \<Rightarrow> ty \<Rightarrow> val \<Rightarrow> string list
       \<Rightarrow> val \<times> error option"
  and processElems ::
    "Configor \<Rightarrow> process \<Rightarrow> decoders \<Rightarrow> StructField \<Rightarrow> ty \<Rightarrow> nat \<Rightarrow> val list \<Rightarrow> string list
       \<Rightarrow> val list \<times> error option"
where
  "processTags c p d (TStruct fds) (VStruct vs) pfxs =
     (case processTags_fields c p d fds vs pfxs of (vs', r) \<Rightarrow> (VStruct vs', r))"
| "processTags c p d t v pfxs = (v, Some invalidConfig)"
| "processTags_fields c p d ((fieldStruct, t) # fds) (v # vs) pfxs =
     (case processField c p d fieldStruct t v pfxs of
        (v', Some e) \<Rightarrow> (v' # vs, Some e)
      | (v', None) \<Rightarrow>
          (case processTags_fields c p d fds vs pfxs of (vs', r) \<Rightarrow> (v' # vs', r)))"
| "processTags_fields c p d fds vs pfxs = (vs, None)"
| "processField c p d fieldStruct t v pfxs =
     (if \<not> isNilPtr t v \<and> PkgPath fieldStruct \<noteq> [] then (v, None)
      else
        (let envNames = getEnvironmentVariables c fieldStruct pfxs in
         case loadFromShellENV p d (fieldType t v) (fieldValue t v) envNames of
           (f1, Some e) \<Rightarrow> (stored t v f1, Some e)
         | (f1, None) \<Rightarrow>
             (case defaultOrRequired d fieldStruct envNames (fieldType t v) f1 of
                (f2, Some e) \<Rightarrow> (stored t v f2, Some e)
              | (f2, None) \<Rightarrow>
                  (case descend c p d fieldStruct (fieldType t v) f2 pfxs of
                     (f3, r) \<Rightarrow> (stored t v f3, r)))))"
| "descend c p d fieldStruct (TPtr t) (VPtr (Some w)) pfxs =
     (case descend c p d fieldStruct t w pfxs of (w', r) \<Rightarrow> (VPtr (Some w'), r))"
| "descend c p d fieldStruct (TStruct fds) (VStruct vs) pfxs =
     processTags c p d (TStruct fds) (VStruct vs) (getPrefixForStruct pfxs fieldStruct)"
| "descend c p d fieldStruct (TSlice t) (VSlice (Some es)) pfxs =
     (case processElems c p d fieldStruct t 0 es pfxs of (es', r) \<Rightarrow> (VSlice (Some es'), r))"
| "descend c p d fieldStruct t v pfxs = (v, None)"
| "processElems c p d fieldStruct t i (e # es) pfxs =
     (if indirectIsStruct e then
        (case processTags c p d t e (getPrefixForStruct pfxs fieldStruct @ [Sprint i]) of
           (e', Some err) \<Rightarrow> (e' # es, Some err)
         | (e', None) \<Rightarrow>
             (case processElems c p d fieldStruct t (Suc i) es pfxs of
                (es', r) \<Rightarrow> (e' # es', r)))
      else
        (case processElems c p d fieldStruct t (Suc i) es pfxs of (es', r) \<Rightarrow> (e # es', r)))"
| "processElems c p d fieldStruct t i [] pfxs = ([], None)"
  by pat_completeness auto

termination processTags
proof -
  have less: "size (fieldType t v) < size t" if "size (fieldType t v) \<noteq> size t" for t v
    using that by (induction t v rule: fieldType.induct) auto
  show ?thesis
    by (relation "measures [
         (\<lambda>x. case x of
             Inl (Inl (c, p, d, t, v, pf)) \<Rightarrow> size t
           | Inl (Inr (c, p, d, fds, vs, pf)) \<Rightarrow> size_list (size_prod (\<lambda>_. 0) size) fds
           | Inr (Inl (c, p, d, fs, t, v, pf)) \<Rightarrow> size t
           | Inr (Inr (Inl (c, p, d, fs, t, v, pf))) \<Rightarrow> size t
           | Inr (Inr (Inr (c, p, d, fs, t, i, es, pf))) \<Rightarrow> size t),
         (\<lambda>x. case x of
             Inl (Inl _) \<Rightarrow> 0
           | Inl (Inr _) \<Rightarrow> 0
           | Inr (Inl _) \<Rightarrow> 2
           | Inr (Inr (Inl _)) \<Rightarrow> 1
           | Inr (Inr (Inr (c, p, d, fs, t, i, es, pf))) \<Rightarrow> 1 + length es)]")
       (auto simp: less)
qed

declare processField.simps [simp del]

section \<open>Load\<close>

text \<open>The loop of \<open>Load\<close> over the resolved files; it stops at the first error.\<close>

fun processFiles ::
  "Configor \<Rightarrow> process \<Rightarrow> decoders \<Rightarrow> ty \<Rightarrow> val \<Rightarrow> string list \<Rightarrow> val \<times> error option" where
  "processFiles c p d t config [] = (config, None)"
| "processFiles c p d t config (file # files) =
     (case processFile d p t config file (GetErrorOnUnmatchedKeys c) of
        (config', Some e) \<Rightarrow> (config', Some e)
      | (config', None) \<Rightarrow> processFiles c p d t config' files)"

text \<open>
  \<open>Load\<close>, on the variable the caller's pointer \<open>config\<close> points to: its type \<open>t\<close> and what
  it holds before the call. The answer is what it holds when \<open>Load\<close> returns, and the
  error returned (a panic included). A target that is not handed over by a pointer is
  outside the model: no decoder can write to it.
\<close>

definition Load ::
  "Configor \<Rightarrow> process \<Rightarrow> decoders \<Rightarrow> ty \<Rightarrow> val \<Rightarrow> string list \<Rightarrow> val \<times> error option" where
  "Load c p d t config files =
     (case getConfigurationFiles c p files of
        Inl e \<Rightarrow> (config, Some e)
      | Inr resolved \<Rightarrow>
          (case processFiles c p d t config resolved of
             (config', Some e) \<Rightarrow> (config', Some e)
           | (config', None) \<Rightarrow>
               if length (globalPrefix c) > 0 then processTags c p d t config' [globalPrefix c]
               else processTags c p d t config' []))"

section \<open>Notions for stating the properties\<close>

text \<open>
  What one candidate contributes, in the words of the specification: the base file when
  it is a regular file, then its environment-suffixed sibling when that is a regular
  file, and the example sibling only when neither of the two is there.
\<close>

definition resolved_for :: "process \<Rightarrow> string \<Rightarrow> string \<Rightarrow> string list" where
  "resolved_for p env file =
     (let sibling = envFileName file env; example = envFileName file ''example'' in
      (if IsRegularFile p file then [file] else []) @
      (if IsRegularFile p sibling then [sibling] else []) @
      (if \<not> IsRegularFile p file \<and> \<not> IsRegularFile p sibling \<and> IsRegularFile p example
       then [example] else []))"

text \<open>The file names whose extension selects a format.\<close>

definition recognised :: "string \<Rightarrow> bool" where
  "recognised file =
     (HasSuffix file ''.yaml'' \<or> HasSuffix file ''.yml'' \<or> HasSuffix file ''.toml'' \<or>
      HasSuffix file ''.json'')"

text \<open>The names one accumulated prefix contributes to a field without an \<open>env\<close> tag.\<close>

definition names_for_prefix :: "string \<Rightarrow> string \<Rightarrow> string \<Rightarrow> string list" where
  "names_for_prefix fieldName jsonName p =
     [p @ ''_'' @ fieldName, ToUpper (p @ ''_'' @ fieldName)] @
     (if jsonName \<noteq> [] then [p @ ''_'' @ jsonName, ToUpper (p @ ''_'' @ jsonName)] else [])"

text \<open>
  The struct a field value gives the walk to enter, and the elements of the slice it
  gives: what is left once the pointers in front of it are followed, as the loop
  \<open>for field.Kind() == reflect.Ptr\<close> does before the walk recurses.
\<close>

fun structOf :: "ty \<Rightarrow> val \<Rightarrow> ((StructField \<times> ty) list \<times> val list) option" where
  "structOf (TStruct fds) (VStruct vs) = Some (fds, vs)"
| "structOf (TPtr t) (VPtr (Some w)) = structOf t w"
| "structOf t v = None"

fun sliceOf :: "ty \<Rightarrow> val \<Rightarrow> (ty \<times> val list) option" where
  "sliceOf (TSlice t) (VSlice (Some es)) = Some (t, es)"
| "sliceOf (TPtr t) (VPtr (Some w)) = sliceOf t w"
| "sliceOf t v = None"

text \<open>
  A value that holds nothing for the walk to enter: no struct, behind pointers or not,
  and no slice with an element that is a struct or a pointer to one.
\<close>

fun plain :: "val \<Rightarrow> bool" where
  "plain (VStruct vs) = False"
| "plain (VPtr (Some w)) = plain w"
| "plain (VSlice (Some es)) = list_all (\<lambda>e. \<not> indirectIsStruct e) es"
| "plain v = True"

text \<open>
  A field below the target is reached by a path: the position of a field in a struct or
  the position of an element in a slice, one after the other; pointers on the way are
  followed.
\<close>

datatype step = Member nat | Index nat

fun members :: "val \<Rightarrow> val list option" where
  "members (VStruct vs) = Some vs"
| "members (VPtr (Some w)) = members w"
| "members v = None"

fun elements :: "val \<Rightarrow> val list option" where
  "elements (VSlice (Some es)) = Some es"
| "elements (VPtr (Some w)) = elements w"
| "elements v = None"

fun at_path :: "val \<Rightarrow> step list \<Rightarrow> val option" where
  "at_path v [] = Some v"
| "at_path v (Member j # path) =
     (case members v of
        Some vs \<Rightarrow> if j < length vs then at_path (vs ! j) path else None
      | None \<Rightarrow> None)"
| "at_path v (Index k # path) =
     (case elements v of
        Some es \<Rightarrow> if k < length es then at_path (es ! k) path else None
      | None \<Rightarrow> None)"

text \<open>
  The fields a successful walk of the target works on in place, at any depth.
  \<open>walked c p d T V P V' path fs t v q v'\<close>: the walk of the target of type \<open>T\<close> holding
  \<open>V\<close>, with the prefixes \<open>P\<close>, ends without error and leaves \<open>V'\<close>; on its way it comes
  to the field \<open>fs\<close> of type \<open>t\<close> at \<open>path\<close> with the prefixes \<open>q\<close>; the field holds \<open>v\<close> at
  that moment and \<open>v'\<close> in \<open>V'\<close>. The fields of the target itself are walked with \<open>P\<close>. The
  fields of the struct that a walked field holds after its environment and default
  steps, behind pointers or not, are walked with the prefixes of \<open>getPrefixForStruct\<close>,
  and the fields of a struct that is an element of the slice it holds with these
  prefixes and the index of the element.
\<close>

inductive walked ::
  "Configor \<Rightarrow> process \<Rightarrow> decoders \<Rightarrow> ty \<Rightarrow> val \<Rightarrow> string list \<Rightarrow> val
     \<Rightarrow> step list \<Rightarrow> StructField \<Rightarrow> ty \<Rightarrow> val \<Rightarrow> string list \<Rightarrow> val \<Rightarrow> bool"
  for c p d T V P V'
where
  top:
    "processTags c p d T V P = (V', None) \<Longrightarrow>
     T = TStruct fds \<Longrightarrow> V = VStruct vs \<Longrightarrow> V' = VStruct vs' \<Longrightarrow>
     i < length fds \<Longrightarrow> i < length vs \<Longrightarrow>
     walked c p d T V P V' [Member i] (fst (fds ! i)) (snd (fds ! i)) (vs ! i) P (vs' ! i)"
| member:
    "walked c p d T V P V' path fs t v q v' \<Longrightarrow>
     \<not> isNilPtr t v \<Longrightarrow> PkgPath fs = [] \<Longrightarrow>
     loadFromShellENV p d t v (getEnvironmentVariables c fs q) = (f1, None) \<Longrightarrow>
     defaultOrRequired d fs (getEnvironmentVariables c fs q) t f1 = (f2, None) \<Longrightarrow>
     structOf t f2 = Some (fds, vs) \<Longrightarrow> members v' = Some vs' \<Longrightarrow>
     j < length fds \<Longrightarrow> j < length vs \<Longrightarrow>
     walked c p d T V P V' (path @ [Member j]) (fst (fds ! j)) (snd (fds ! j)) (vs ! j)
       (getPrefixForStruct q fs) (vs' ! j)"
| element:
    "walked c p d T V P V' path fs t v q v' \<Longrightarrow>
     \<not> isNilPtr t v \<Longrightarrow> PkgPath fs = [] \<Longrightarrow>
     loadFromShellENV p d t v (getEnvironmentVariables c fs q) = (f1, None) \<Longrightarrow>
     defaultOrRequired d fs (getEnvironmentVariables c fs q) t f1 = (f2, None) \<Longrightarrow>
     sliceOf t f2 = Some (TStruct fds, es) \<Longrightarrow> elements v' = Some es' \<Longrightarrow>
     k < length es \<Longrightarrow> es ! k = VStruct vs \<Longrightarrow> es' ! k = VStruct vs' \<Longrightarrow>
     j < length fds \<Longrightarrow> j < length vs \<Longrightarrow>
     walked c p d T V P V' (path @ [Index k, Member j]) (fst (fds ! j)) (snd (fds ! j)) (vs ! j)
       (getPrefixForStruct q fs @ [Sprint k]) (vs' ! j)"

section \<open>Fixtures for concrete evaluations\<close>

text \<open>
  A process given by the association lists of its environment variables and of its
  regular files (path and contents), started as \<open>/usr/local/bin/app\<close>.
\<close>

definition example_process :: "(string \<times> string) list \<Rightarrow> (string \<times> string) list \<Rightarrow> process" where
  "example_process env files =
     \<lparr>Getenv = (\<lambda>k. case map_of env k of Some v \<Rightarrow> v | None \<Rightarrow> []),
      Args = [''/usr/local/bin/app''],
      Stat = (\<lambda>f. case map_of files f of Some _ \<Rightarrow> Some True | None \<Rightarrow> None),
      ReadFile = (\<lambda>f. case map_of files f of
                         Some content \<Rightarrow> Inr content
                       | None \<Rightarrow> Inl (ExternalError (''open '' @ f @ '': no such file or directory'')))\<rparr>"

text \<open>A session with the given explicit environment name and global prefix.\<close>

definition example_Configor :: "string \<Rightarrow> string \<Rightarrow> Configor" where
  "example_Configor env pfx =
     \<lparr>Config = zero_Config\<lparr>Environment := env\<rparr>, globalPrefix = pfx\<rparr>"

text \<open>
  Four regular files of a configuration directory.
\<close>

definition example_files :: "(string \<times> string) list" where
  "example_files =
     [(''conf/app.yaml'', ''a''), (''conf/app.production.yaml'', ''b''),
      (''conf/db.example'', ''c''), (''conf/log.production.toml'', ''d'')]"

text \<open>
  A decoder for the values of environment variables and \<open>default\<close> tags in the concrete
  evaluations. It covers a fragment of the YAML grammar and answers there as the
  library does: an unsigned decimal literal is read into an int, a word into a string
  (the word \<open>null\<close> gives the zero value), a word met where an int is wanted is a
  type error, and anything else fails.
\<close>

definition digit_value :: "char \<Rightarrow> nat" where
  "digit_value c =
     (case map_of (zip ''0123456789'' [0, 1, 2, 3, 4, 5, 6, 7, 8, 9]) c of Some k \<Rightarrow> k | None \<Rightarrow> 0)"

definition decimal :: "string \<Rightarrow> nat" where
  "decimal s = foldl (\<lambda>n c. 10 * n + digit_value c) 0 s"

definition isWord :: "string \<Rightarrow> bool" where
  "isWord s = (s \<noteq> [] \<and> list_all (\<lambda>c. c \<in> set ''abcdefghijklmnopqrstuvwxyzABCDEFGHIJKLMNOPQRSTUVWXYZ0123456789_'') s)"

definition isDigits :: "string \<Rightarrow> bool" where
  "isDigits s = (s \<noteq> [] \<and> list_all (\<lambda>c. c \<in> set ''0123456789'') s)"

definition example_yaml :: "string \<Rightarrow> ty \<Rightarrow> val \<Rightarrow> val \<times> error option" where
  "example_yaml s t v =
     (case t of
        TInt \<Rightarrow>
          if isDigits s then (VInt (int (decimal s)), None)
          else if isWord s then (v, Some (YamlTypeError [''line 1: cannot unmarshal !!str into int'']))
          else (v, Some (ExternalError ''yaml: did not find expected node content''))
      | TString \<Rightarrow>
          if s \<in> set [''null'', ''Null'', ''NULL''] then (VString [], None)
          else if isWord s then (VString s, None)
          else (v, Some (ExternalError ''yaml: did not find expected node content''))
      | _ \<Rightarrow> (v, Some (ExternalError ''yaml: document outside the fixture'')))"

text \<open>
  Decoders given by tables: for the bytes of a document, what the target holds
  afterwards, and the undecoded keys or the error. A document that is not in the table
  of a format is not of that format; YAML falls back to the fragment above.
\<close>

definition example_decoders ::
  "(string \<times> val \<times> toml_Key list) list \<Rightarrow> (string \<times> val \<times> error option) list
     \<Rightarrow> (string \<times> val \<times> error option) list \<Rightarrow> decoders" where
  "example_decoders tomlDocs jsonDocs yamlDocs =
     \<lparr>yaml_Unmarshal = (\<lambda>s t v. case map_of yamlDocs s of Some r \<Rightarrow> r | None \<Rightarrow> example_yaml s t v),
      yaml_UnmarshalStrict = (\<lambda>s t v. case map_of yamlDocs s of Some r \<Rightarrow> r | None \<Rightarrow> example_yaml s t v),
      toml_Decode = (\<lambda>s t v. case map_of tomlDocs s of
                        Some (v', undecoded) \<Rightarrow> (v', undecoded, None)
                      | None \<Rightarrow> (v, [], Some (ExternalError ''toml: expected key separator''))),
      unmarshalJSON = (\<lambda>s t v strict. case map_of jsonDocs s of
                        Some r \<Rightarrow> r
                      | None \<Rightarrow> (v, Some (ExternalError ''invalid character looking for beginning of value'')))\<rparr>"

text \<open>An exported field that is not embedded, with the given name and tags.\<close>

definition exported_field :: "string \<Rightarrow> (string \<times> string) list \<Rightarrow> StructField" where
  "exported_field n tags = \<lparr>Name = n, Tag = tags, Anonymous = False, PkgPath = []\<rparr>"

text \<open>A target with one int field \<open>Port\<close>, and documents for it in the three formats.\<close>

definition port_ty :: ty where
  "port_ty = TStruct [(exported_field ''Port'' [], TInt)]"

definition dq :: string where
  "dq = [CHR 0x22]"

definition doc_json_unknown :: string where
  "doc_json_unknown = ''{'' @ dq @ ''Test'' @ dq @ '': 1}''"

definition port_decoders :: decoders where
  "port_decoders =
     example_decoders
       [(''Port = 8080'', VStruct [VInt 8080], []),
        (''Test = 1'', VStruct [VInt 0], [[''Test'']])]
       [(''{}'', VStruct [VInt 0], None),
        (doc_json_unknown, VStruct [VInt 0],
           Some (ExternalError (''json: unknown field '' @ dq @ ''Test'' @ dq)))]
       [(''Port: 8080'', VStruct [VInt 8080], None),
        (''Port: abc'', VStruct [VInt 0],
           Some (YamlTypeError [''line 1: cannot unmarshal !!str into int'']))]"

definition port_files :: "(string \<times> string) list" where
  "port_files =
     [(''cfg.yaml'', ''Port: 8080''), (''cfg.toml'', ''Port = 8080''), (''cfg.json'', ''{}''),
      (''cfg1'', ''Port = 8080''), (''cfg2'', ''Test = 1''), (''cfg3'', ''{}''),
      (''cfg4'', doc_json_unknown), (''cfg5'', ''Port: 8080''), (''cfg6'', ''Port: abc''),
      (''cfg7'', ''{'')]"

text \<open>Fields of the \<open>Connection\<close> struct of the test suite.\<close>

definition password_field :: StructField where
  "password_field =
     exported_field ''Password'' [(''json'', ''pass''), (''required'', ''true''), (''env'', ''DBPassword'')]"

definition user_field :: StructField where
  "user_field = exported_field ''User'' [(''json'', ''user_name''), (''default'', ''root'')]"

definition port_field :: StructField where
  "port_field = exported_field ''Port'' [(''default'', ''3306'')]"

text \<open>
  The \<open>Contact\<close> struct of the test suite, a struct with a pointer to it, and the
  environment that names two of its members.
\<close>

definition contact_fields :: "(StructField \<times> ty) list" where
  "contact_fields =
     [(exported_field ''Name'' [(''json'', ''first_name'')], TString),
      (exported_field ''LastName'' [], TString),
      (exported_field ''Email'' [(''required'', ''true'')], TString)]"

definition holder_fields :: "(StructField \<times> ty) list" where
  "holder_fields =
     [(exported_field ''ContactPtr'' [(''json'', ''contact_ptr'')], TPtr (TStruct contact_fields))]"

definition contact_env :: "(string \<times> string) list" where
  "contact_env = [(''CONFIGOR_CONTACT_PTR_EMAIL'', ''bob''), (''CONFIGOR_CONTACTPTR_NAME'', ''alice'')]"


definition contacts_field :: StructField where
  "contacts_field = exported_field ''Contacts'' []"


definition contact_bob :: val where
  "contact_bob = VStruct [VString ''bob'', VString [], VString ''bob_mail'']"

definition contact_dan :: val where
  "contact_dan = VStruct [VString ''dan'', VString [], VString ''dan_mail'']"

text \<open>The field \<open>I\<close> of the example program of the repository.\<close>

definition integer_field :: StructField where
  "integer_field = exported_field ''I'' [(''json'', ''integer''), (''required'', ''true'')]"

text \<open>
  A target with a name that has a default, a list of hosts and a nested database
  struct with a name and a port (default 3306), as in the test suite.
\<close>

definition appname_field :: StructField where
  "appname_field = exported_field ''APPName'' [(''default'', ''configor'')]"

definition hosts_field :: StructField where
  "hosts_field = exported_field ''Hosts'' []"

definition db_field :: StructField where
  "db_field = exported_field ''DB'' []"

definition name_field :: StructField where
  "name_field = exported_field ''Name'' []"

definition db_fields :: "(StructField \<times> ty) list" where
  "db_fields = [(name_field, TString), (port_field, TInt)]"

definition app_fields :: "(StructField \<times> ty) list" where
  "app_fields = [(appname_field, TString), (hosts_field, TSlice TString), (db_field, TStruct db_fields)]"

text \<open>
  A YAML document for it, with the keys in lower case as the YAML decoder matches them,
  what it decodes to, the decoders that know it and the list \<open>[alpha, beta]\<close>, the file
  \<open>config.yaml\<close> holding it, an environment for three of the fields, and what \<open>Load\<close>
  leaves in the target under that environment.
\<close>

definition app_doc :: string where
  "app_doc = ''{appname: configor, hosts: [one], db: {name: configor, port: 8080}}''"

definition app_file_value :: val where
  "app_file_value =
     VStruct [VString ''configor'', VSlice (Some [VString ''one'']),
              VStruct [VString ''configor'', VInt 8080]]"

definition app_decoders :: decoders where
  "app_decoders =
     example_decoders [] []
       [(app_doc, app_file_value, None),
        (''[alpha, beta]'', VSlice (Some [VString ''alpha'', VString ''beta'']), None)]"

definition app_files :: "(string \<times> string) list" where
  "app_files = [(''config.yaml'', app_doc)]"

definition app_env :: "(string \<times> string) list" where
  "app_env =
     [(''CONFIGOR_APPNAME'', ''config2''), (''CONFIGOR_HOSTS'', ''[alpha, beta]''),
      (''CONFIGOR_DB_NAME'', ''db_name'')]"

definition app_loaded :: val where
  "app_loaded =
     VStruct [VString ''config2'', VSlice (Some [VString ''alpha'', VString ''beta'']),
              VStruct [VString ''db_name'', VInt 8080]]"

text \<open>A target with two slices of contacts.\<close>

definition admins_field :: StructField where
  "admins_field = exported_field ''Admins'' []"

definition team_fields :: "(StructField \<times> ty) list" where
  "team_fields =
     [(contacts_field, TSlice (TStruct contact_fields)),
      (admins_field, TSlice (TStruct contact_fields))]"

section \<open>Facts about the string functions\<close>

lemma Contains_sublist: "Contains s sub = sublist sub s"
  by (induction s) (auto simp: sublist_Cons_right)

lemma Contains_iff: "Contains s sub \<longleftrightarrow> (\<exists>u v. s = u @ sub @ v)"
  by (simp add: Contains_sublist sublist_def)

lemma HasSuffix_iff: "HasSuffix s suf \<longleftrightarrow> (\<exists>u. s = u @ suf)"
proof
  assume "HasSuffix s suf"
  then have "s = take (length s - length suf) s @ suf"
    by (metis HasSuffix_def append_take_drop_id)
  then show "\<exists>u. s = u @ suf" ..
next
  assume "\<exists>u. s = u @ suf"
  then show "HasSuffix s suf" by (auto simp: HasSuffix_def)
qed

lemma HasSuffix_suffix: "HasSuffix s suf = suffix suf s"
  by (simp add: HasSuffix_iff suffix_def)

lemma HasSuffix_both:
  assumes "HasSuffix s a" "HasSuffix s b" "length a \<le> length b"
  shows "HasSuffix b a"
proof -
  from assms(1,2) have "suffix a s" "suffix b s" by (simp_all add: HasSuffix_suffix)
  then have "suffix a b \<or> suffix b a" by (rule suffix_same_cases)
  then show ?thesis
  proof
    assume "suffix a b" then show ?thesis by (simp add: HasSuffix_suffix)
  next
    assume ba: "suffix b a"
    then have "length b \<le> length a" by (rule suffix_length_le)
    with assms(3) have "length a = length b" by simp
    with ba have "a = b" by (auto simp: suffix_def)
    then show ?thesis by (simp add: HasSuffix_suffix)
  qed
qed

lemma toml_not_yaml: "HasSuffix file ''.toml'' \<Longrightarrow> \<not> HasSuffix file ''.yaml'' \<and> \<not> HasSuffix file ''.yml''"
  using HasSuffix_both [of "file" "''.yaml''" "''.toml''"] HasSuffix_both [of "file" "''.yml''" "''.toml''"]
  by (auto simp: HasSuffix_def)

lemma json_not_others:
  "HasSuffix file ''.json'' \<Longrightarrow>
     \<not> HasSuffix file ''.yaml'' \<and> \<not> HasSuffix file ''.yml'' \<and> \<not> HasSuffix file ''.toml''"
  using HasSuffix_both [of "file" "''.yaml''" "''.json''"] HasSuffix_both [of "file" "''.yml''" "''.json''"]
    HasSuffix_both [of "file" "''.toml''" "''.json''"]
  by (auto simp: HasSuffix_def)

lemma Ext_scan_suffix: "Ext_scan r acc \<noteq> [] \<Longrightarrow> \<exists>u. rev r @ acc = u @ Ext_scan r acc"
proof (induction r arbitrary: acc)
  case Nil
  then show ?case by simp
next
  case (Cons c r)
  show ?case
  proof (cases "c = CHR ''/''")
    case True
    with Cons.prems show ?thesis by simp
  next
    case False
    show ?thesis
    proof (cases "c = CHR ''.''")
      case True
      then show ?thesis by simp
    next
      case dot: False
      with False Cons.prems have "Ext_scan r (c # acc) \<noteq> []" by simp
      from Cons.IH [OF this] dot False show ?thesis by simp
    qed
  qed
qed

lemma Ext_suffix: "Ext file \<noteq> [] \<Longrightarrow> \<exists>stem. file = stem @ Ext file"
  using Ext_scan_suffix [of "rev file" "[]"] by (simp add: Ext_def)

lemma envFileName_no_ext: "Ext file = [] \<Longrightarrow> envFileName file env = file @ ''.'' @ env"
  by (simp add: envFileName_def)

lemma envFileName_ext:
  assumes "Ext file \<noteq> []"
  shows "\<exists>stem. file = stem @ Ext file \<and> envFileName file env = stem @ ''.'' @ env @ Ext file"
proof -
  from Ext_suffix [OF assms] obtain stem where stem: "file = stem @ Ext file" ..
  then have "HasSuffix file (Ext file)" by (auto simp: HasSuffix_iff)
  moreover have "take (length file - length (Ext file)) file = stem"
  proof -
    have "length file - length (Ext file) = length stem"
      using arg_cong [OF stem, of length] by simp
    then have "take (length file - length (Ext file)) (stem @ Ext file) = stem" by simp
    with stem show ?thesis by simp
  qed
  ultimately have "envFileName file env = stem @ ''.'' @ env @ Ext file"
    using assms by (simp add: envFileName_def TrimSuffix_def)
  with stem show ?thesis by blast
qed

lemma foldl_append_one: "foldl (\<lambda>result p. result @ [f p]) acc xs = acc @ map f xs"
  by (induction xs arbitrary: acc) simp_all





section \<open>Facts about the file resolver and the decoders\<close>

lemma filesForCandidate_eq:
  "GetEnvironment c p = Inr env \<Longrightarrow>
   filesForCandidate c p results file = Inr (results @ resolved_for p env file)"
  by (simp add: filesForCandidate_def resolved_for_def getConfigurationFileWithENVPrefix_def Let_def)

lemma getConfigurationFiles_loop_eq:
  "GetEnvironment c p = Inr env \<Longrightarrow>
   getConfigurationFiles_loop c p results todo = Inr (results @ concat (map (resolved_for p env) todo))"
  by (induction todo arbitrary: results) (simp_all add: filesForCandidate_eq)

lemma processFile_default:
  "ReadFile p file = Inr content \<Longrightarrow> \<not> recognised file \<Longrightarrow>
   processFile d p t config file strict =
     (case unmarshalToml d content t config strict of
        (c1, None) \<Rightarrow> (c1, None)
      | (c1, Some tomlErr) \<Rightarrow>
          if isUnmatchedTomlKeysError tomlErr then (c1, Some tomlErr)
          else
            (case unmarshalJSON d content t c1 strict of
               (c2, None) \<Rightarrow> (c2, None)
             | (c2, Some jsonErr) \<Rightarrow>
                 if Contains (Error jsonErr) ''json: unknown field'' then (c2, Some jsonErr)
                 else
                   (case yaml_by_mode d strict content t c2 of
                      (c3, None) \<Rightarrow> (c3, None)
                    | (c3, Some yamlError) \<Rightarrow>
                        if isYamlTypeError yamlError then (c3, Some yamlError)
                        else (c3, Some (ErrorString ''failed to decode config'')))))"
  by (simp add: processFile_def recognised_def)

section \<open>Facts about the names of environment variables\<close>

lemma getEnvironmentVariables_loop_eq:
  "getEnvironmentVariables_loop n j result pfxs = result @ concat (map (names_for_prefix n j) pfxs)"
  by (induction pfxs arbitrary: result) (simp_all add: names_for_prefix_def Let_def)

lemma loadFromShellENV_find:
  "loadFromShellENV p d t field envNames =
     (case find (\<lambda>env. Getenv p env \<noteq> []) envNames of
        None \<Rightarrow> (field, None)
      | Some env \<Rightarrow> yaml_Unmarshal d (Getenv p env) t field)"
  by (induction envNames) simp_all

lemma getEnvironmentVariables_no_env_tag:
  assumes "Tag_Get (Tag fs) ''env'' = []"
  shows "getEnvironmentVariables c fs pfxs =
     (if pfxs = [] then
        [Name fs, ToUpper (Name fs)] @
        (if getJsonTag fs \<noteq> [] then [getJsonTag fs, ToUpper (getJsonTag fs)] else [])
      else concat (map (names_for_prefix (Name fs) (getJsonTag fs)) pfxs))"
proof (cases pfxs)
  case Nil
  with assms show ?thesis by (simp add: getEnvironmentVariables_def Let_def)
next
  case (Cons x xs)
  with assms show ?thesis
    by (simp add: getEnvironmentVariables_def getEnvironmentVariables_loop_eq names_for_prefix_def Let_def)
qed

lemma getEnvironmentVariables_env_tag:
  assumes "Tag_Get (Tag fs) ''env'' \<noteq> []"
  shows "getEnvironmentVariables c fs pfxs =
     (if globalPrefix c \<noteq> [] then
        [Tag_Get (Tag fs) ''env'',
         globalPrefix c @ ''_'' @ Tag_Get (Tag fs) ''env'',
         ToUpper (globalPrefix c) @ ''_'' @ Tag_Get (Tag fs) ''env'']
      else [Tag_Get (Tag fs) ''env''])"
  using assms by (simp add: getEnvironmentVariables_def Let_def)


lemma getPrefixForStruct_eq:
  "getPrefixForStruct pfxs fs =
     (if Anonymous fs \<and> Tag_Get (Tag fs) ''anonymous'' = ''true'' then pfxs
      else if pfxs = [] then Name fs # (if getJsonTag fs \<noteq> [] then [getJsonTag fs] else [])
      else map (\<lambda>p. p @ ''_'' @ Name fs) pfxs @
           (if getJsonTag fs \<noteq> [] then map (\<lambda>p. p @ ''_'' @ getJsonTag fs) pfxs else []))"
  by (cases pfxs) (simp_all add: getPrefixForStruct_def foldl_append_one Let_def)



section \<open>Facts about the walk\<close>

lemma processTags_fields_length: "length (fst (processTags_fields c p d fds vs pfxs)) = length vs"
proof (induction fds arbitrary: vs)
  case Nil
  then show ?case by simp
next
  case (Cons fd fds)
  obtain fs t where fd: "fd = (fs, t)" by (cases fd)
  show ?case
  proof (cases vs)
    case Nil
    then show ?thesis by (simp add: fd)
  next
    case (Cons v vs')
    with Cons.IH [of vs'] show ?thesis
      by (auto simp: fd split: prod.splits option.splits)
  qed
qed

text \<open>Each field of the result is either the walked field or, past an error, the old one.\<close>

lemma processTags_fields_nth:
  "i < length fds \<Longrightarrow> i < length vs \<Longrightarrow>
   fst (processTags_fields c p d fds vs pfxs) ! i
     = fst (processField c p d (fst (fds ! i)) (snd (fds ! i)) (vs ! i) pfxs) \<or>
   fst (processTags_fields c p d fds vs pfxs) ! i = vs ! i"
proof (induction fds arbitrary: vs i)
  case Nil
  then show ?case by simp
next
  case (Cons fd fds)
  obtain fs t where fd: "fd = (fs, t)" by (cases fd)
  from Cons.prems obtain v vs' where vs: "vs = v # vs'" by (cases vs) auto
  show ?case
  proof (cases i)
    case 0
    then show ?thesis by (auto simp: fd vs split: prod.splits option.splits)
  next
    case (Suc k)
    with Cons.prems vs have "k < length fds" "k < length vs'" by simp_all
    from Cons.IH [OF this, of ] Suc show ?thesis
      by (auto simp: fd vs split: prod.splits option.splits)
  qed
qed

text \<open>When the walk of the fields succeeds, every field is the walked one.\<close>

lemma processTags_fields_success_nth:
  "processTags_fields c p d fds vs pfxs = (vs', None) \<Longrightarrow> i < length fds \<Longrightarrow> i < length vs \<Longrightarrow>
   processField c p d (fst (fds ! i)) (snd (fds ! i)) (vs ! i) pfxs = (vs' ! i, None)"
proof (induction fds arbitrary: vs vs' i)
  case Nil
  then show ?case by simp
next
  case (Cons fd fds)
  obtain fs t where fd: "fd = (fs, t)" by (cases fd)
  from Cons.prems obtain v vs0 where vs: "vs = v # vs0" by (cases vs) auto
  obtain v1 r1 where f: "processField c p d fs t v pfxs = (v1, r1)" by (cases "processField c p d fs t v pfxs")
  obtain vs1 r2 where g: "processTags_fields c p d fds vs0 pfxs = (vs1, r2)"
    by (cases "processTags_fields c p d fds vs0 pfxs")
  from Cons.prems(1) f g have r1: "r1 = None" and r2: "r2 = None" and vs': "vs' = v1 # vs1"
    by (auto simp: fd vs split: option.splits)
  show ?case
  proof (cases i)
    case 0
    then show ?thesis using f r1 vs' by (simp add: fd vs)
  next
    case (Suc k)
    with Cons.prems vs have "k < length fds" "k < length vs0" by simp_all
    from Cons.IH [OF _ this, of vs1] g r2 Suc vs' show ?thesis by (simp add: fd vs)
  qed
qed

lemma processField_nil_pointer: "fst (processField c p d fs (TPtr t) (VPtr None) pfxs) = VPtr None"
  by (simp add: processField.simps stored_def Let_def split: prod.splits option.splits)

lemma isNilPtr_TPtr: "isNilPtr t v \<Longrightarrow> \<exists>u. t = TPtr u"
  by (induction t v rule: isNilPtr.induct) simp_all

lemma not_pointer_field:
  assumes "\<And>u. t \<noteq> TPtr u"
  shows "\<not> isNilPtr t v" "fieldType t v = t" "fieldValue t v = v"
  using assms by (cases t; simp)+

lemma processField_nil_pointer_error:
  assumes "PkgPath fs = []" "\<And>u. t \<noteq> TPtr u"
  shows "processField c p d fs (TPtr t) (VPtr None) pfxs
     = (VPtr None, snd (processField c p d fs t (zero t) pfxs))"
  using assms
  by (simp add: processField.simps stored_def Let_def not_pointer_field
      split: prod.splits option.splits)

lemma not_isNilPtr: "\<not> isNilPtr t v \<Longrightarrow> fieldType t v = t \<and> fieldValue t v = v"
  by (induction t v rule: isNilPtr.induct) simp_all

lemma processElems_length: "length (fst (processElems c p d fs t i es pfxs)) = length es"
proof (induction es arbitrary: i)
  case Nil
  then show ?case by simp
next
  case (Cons e es)
  obtain es1 r1 where r: "processElems c p d fs t (Suc i) es pfxs = (es1, r1)"
    by (cases "processElems c p d fs t (Suc i) es pfxs")
  with Cons.IH [of "Suc i"] have "length es1 = length es" by simp
  with r show ?case by (auto split: prod.splits option.splits)
qed


lemma Load_after_files:
  "getConfigurationFiles c p files = Inr resolved \<Longrightarrow>
   processFiles c p d t config resolved = (config', None) \<Longrightarrow>
   Load c p d t config files
     = processTags c p d t config' (if globalPrefix c \<noteq> [] then [globalPrefix c] else [])"
  by (simp add: Load_def)

lemma structOf_members: "structOf t v = Some (fds, vs) \<Longrightarrow> members v = Some vs"
  by (induction t v rule: structOf.induct) simp_all

lemma sliceOf_elements: "sliceOf t v = Some (te, es) \<Longrightarrow> elements v = Some es"
  by (induction t v rule: sliceOf.induct) simp_all

lemma descend_structOf:
  "structOf t f = Some (fds, vs) \<Longrightarrow> descend c p d fs t f q = (v', r) \<Longrightarrow>
   \<exists>vs'. structOf t v' = Some (fds, vs') \<and>
         processTags_fields c p d fds vs (getPrefixForStruct q fs) = (vs', r)"
proof (induction t f arbitrary: v' rule: structOf.induct)
  case (1 fds0 vs0)
  then show ?case by (auto split: prod.splits)
next
  case (2 t w)
  obtain w' r' where w: "descend c p d fs t w q = (w', r')" by (cases "descend c p d fs t w q")
  with "2.prems" have v': "v' = VPtr (Some w')" and r: "r' = r" by simp_all
  from "2.IH" [of w'] "2.prems"(1) w r v' show ?case by simp
qed simp_all

lemma descend_sliceOf:
  "sliceOf t f = Some (te, es) \<Longrightarrow> descend c p d fs t f q = (v', r) \<Longrightarrow>
   \<exists>es'. sliceOf t v' = Some (te, es') \<and> processElems c p d fs te 0 es q = (es', r)"
proof (induction t f arbitrary: v' rule: sliceOf.induct)
  case (1 t0 es0)
  then show ?case by (auto split: prod.splits)
next
  case (2 t w)
  obtain w' r' where w: "descend c p d fs t w q = (w', r')" by (cases "descend c p d fs t w q")
  with "2.prems" have v': "v' = VPtr (Some w')" and r: "r' = r" by simp_all
  from "2.IH" [of w'] "2.prems"(1) w r v' show ?case by simp
qed simp_all

lemma processElems_success_nth:
  "processElems c p d fs t i es q = (es', None) \<Longrightarrow> k < length es \<Longrightarrow> indirectIsStruct (es ! k) \<Longrightarrow>
   processTags c p d t (es ! k) (getPrefixForStruct q fs @ [Sprint (i + k)]) = (es' ! k, None)"
proof (induction es arbitrary: i k es')
  case Nil
  then show ?case by simp
next
  case (Cons e es)
  obtain es1 r1 where r: "processElems c p d fs t (Suc i) es q = (es1, r1)"
    by (cases "processElems c p d fs t (Suc i) es q")
  obtain e1 r0 where e: "processTags c p d t e (getPrefixForStruct q fs @ [Sprint i]) = (e1, r0)"
    by (cases "processTags c p d t e (getPrefixForStruct q fs @ [Sprint i])")
  from Cons.prems(1) r e have r1: "r1 = None"
    and es': "es' = (if indirectIsStruct e then e1 else e) # es1"
    and r0: "indirectIsStruct e \<Longrightarrow> r0 = None"
    by (auto split: if_splits option.splits)
  show ?case
  proof (cases k)
    case 0
    with Cons.prems(3) e r0 es' show ?thesis by simp
  next
    case (Suc m)
    with Cons.prems have "m < length es" "indirectIsStruct (es ! m)" by simp_all
    from Cons.IH [OF _ this, of "Suc i" es1] r r1 Suc es' show ?thesis by simp
  qed
qed

lemma processElems_no_struct:
  "list_all (\<lambda>e. \<not> indirectIsStruct e) es \<Longrightarrow> processElems c p d fs t i es q = (es, None)"
  by (induction es arbitrary: i) simp_all

lemma descend_plain: "plain w \<Longrightarrow> descend c p d fs t w q = (w, None)"
proof (induction w arbitrary: t rule: plain.induct)
  case (1 vs)
  then show ?case by simp
next
  case (2 w)
  then show ?case by (cases t) simp_all
next
  case (3 es)
  then show ?case by (cases t) (simp_all add: processElems_no_struct)
qed (case_tac t; simp)+

lemma processField_in_place:
  "\<not> isNilPtr t v \<Longrightarrow> PkgPath fs = [] \<Longrightarrow>
   processField c p d fs t v q =
     (case loadFromShellENV p d t v (getEnvironmentVariables c fs q) of
        (f1, Some e) \<Rightarrow> (f1, Some e)
      | (f1, None) \<Rightarrow>
          (case defaultOrRequired d fs (getEnvironmentVariables c fs q) t f1 of
             (f2, Some e) \<Rightarrow> (f2, Some e)
           | (f2, None) \<Rightarrow> descend c p d fs t f2 q))"
  by (simp add: processField.simps stored_def not_isNilPtr Let_def split: prod.splits option.splits)

lemma at_path_append:
  "at_path v (path @ rest) = (case at_path v path of Some u \<Rightarrow> at_path u rest | None \<Rightarrow> None)"
proof (induction v path rule: at_path.induct)
  case (1 v)
  then show ?case by simp
next
  case (2 v j path)
  then show ?case by (simp split: option.splits)
next
  case (3 v k path)
  then show ?case by (simp split: option.splits)
qed

lemma processTags_struct_success:
  "processTags c p d (TStruct fds) (VStruct vs) q = (VStruct vs', None) \<Longrightarrow>
   processTags_fields c p d fds vs q = (vs', None) \<and> length vs' = length vs"
  using processTags_fields_length [of c p d fds vs q] by (auto split: prod.splits)

lemma walked_root: "walked c p d T V P V' path fs t v q v' \<Longrightarrow> processTags c p d T V P = (V', None)"
  by (induction rule: walked.induct)

lemma walked_facts:
  "walked c p d T V P V' path fs t v q v' \<Longrightarrow>
   processField c p d fs t v q = (v', None) \<and> at_path V' path = Some v'"
proof (induction rule: walked.induct)
  case (top fds vs vs' i)
  from top(1-4) have f: "processTags_fields c p d fds vs P = (vs', None)" and l: "length vs' = length vs"
    using processTags_struct_success [of c p d fds vs P vs'] by simp_all
  from processTags_fields_success_nth [OF f top(5,6)] l top show ?case by simp
next
  case (member path fs t v q v' f1 f2 fds vs vs' j)
  from member.IH member.hyps(2-5)
  have d: "descend c p d fs t f2 q = (v', None)" by (simp add: processField_in_place)
  from descend_structOf [OF member.hyps(6) d] obtain vs''
    where s: "structOf t v' = Some (fds, vs'')"
      and f: "processTags_fields c p d fds vs (getPrefixForStruct q fs) = (vs'', None)"
    by blast
  from structOf_members [OF s] member.hyps(7) have eq: "vs'' = vs'" by simp
  have l: "length vs' = length vs"
    using processTags_fields_length [of c p d fds vs "getPrefixForStruct q fs"] f eq by simp
  from processTags_fields_success_nth [OF f member.hyps(8,9)] eq
  have "processField c p d (fst (fds ! j)) (snd (fds ! j)) (vs ! j) (getPrefixForStruct q fs)
      = (vs' ! j, None)" by simp
  moreover have "at_path V' (path @ [Member j]) = Some (vs' ! j)"
    using member.IH member.hyps(7,9) l by (simp add: at_path_append)
  ultimately show ?case by simp
next
  case (element path fs t v q v' f1 f2 fds es es' k vs vs' j)
  from element.IH element.hyps(2-5)
  have d: "descend c p d fs t f2 q = (v', None)" by (simp add: processField_in_place)
  from descend_sliceOf [OF element.hyps(6) d] obtain es''
    where s: "sliceOf t v' = Some (TStruct fds, es'')"
      and e: "processElems c p d fs (TStruct fds) 0 es q = (es'', None)"
    by blast
  from sliceOf_elements [OF s] element.hyps(7) have eq: "es'' = es'" by simp
  have le: "length es' = length es"
    using processElems_length [of c p d fs "TStruct fds" 0 es q] e eq by simp
  from processElems_success_nth [OF e element.hyps(8)] element.hyps(9,10) eq
  have "processTags c p d (TStruct fds) (VStruct vs) (getPrefixForStruct q fs @ [Sprint k])
      = (VStruct vs', None)" by simp
  then have f: "processTags_fields c p d fds vs (getPrefixForStruct q fs @ [Sprint k]) = (vs', None)"
    and l: "length vs' = length vs"
    using processTags_struct_success by blast+
  from processTags_fields_success_nth [OF f element.hyps(11,12)]
  have "processField c p d (fst (fds ! j)) (snd (fds ! j)) (vs ! j) (getPrefixForStruct q fs @ [Sprint k])
      = (vs' ! j, None)" by simp
  moreover have "at_path V' (path @ [Index k, Member j]) = Some (vs' ! j)"
    using element.IH element.hyps(7,8,10,12) l le by (simp add: at_path_append)
  ultimately show ?case by simp
qed

section \<open>Evaluating the fixtures\<close>

lemmas fixture_defs =
  example_process_def example_decoders_def port_decoders_def port_files_def port_ty_def
  doc_json_unknown_def dq_def example_yaml_def isWord_def isDigits_def exported_field_def

lemmas walk_simps =
  processField.simps getEnvironmentVariables_def getPrefixForStruct_def getJsonTag_def
  defaultOrRequired_def stored_def Tag_Get_def TrimSpace_def isSpace_def Split_comma_first_def
  ToUpper_def upper_byte_def Let_def decimal_def digit_value_def

lemmas load_simps =
  Load_def getConfigurationFiles_def filesForCandidate_def getConfigurationFileWithENVPrefix_def
  envFileName_def Ext_def TrimSuffix_def HasSuffix_def IsRegularFile_def GetEnvironment_def
  testRegexp_MatchString_def processFile_def yaml_by_mode_def GetErrorOnUnmatchedKeys_def
  zero_Config_def

lemma getJsonTag_user: "getJsonTag user_field = ''user_name''"
  by (simp add: getJsonTag_def user_field_def exported_field_def Tag_Get_def Split_comma_first_def
      TrimSpace_def isSpace_def)

lemma ToUpper_examples:
  "ToUpper ''app'' = ''APP''" "ToUpper ''app_DBPassword'' = ''APP_DBPASSWORD''"
  "ToUpper ''app_DB_User'' = ''APP_DB_USER''" "ToUpper ''app_DB_user_name'' = ''APP_DB_USER_NAME''"
  "ToUpper ''Name'' = ''NAME''"
  by (simp_all add: ToUpper_def upper_byte_def)

lemmas app_defs =
  appname_field_def hosts_field_def db_field_def name_field_def db_fields_def app_fields_def
  app_doc_def app_file_value_def app_decoders_def app_files_def app_env_def port_field_def
  example_process_def example_decoders_def example_yaml_def isWord_def isDigits_def
  exported_field_def example_Configor_def

section \<open>Candidate names and the environment step\<close>

text \<open>
  Claim C1, as amended. The ordered candidate names of a field are: with an \<open>env\<close> tag,
  the literal tag value, followed, only when the global prefix is not empty, by
  \<open>prefix_name\<close> and by the same name with the prefix alone in upper case (the tag value
  keeps its case); without an \<open>env\<close> tag, for each accumulated prefix \<open>p\<close> in order,
  \<open>p_fieldName\<close> and its upper-case form, then, if a json name exists,
  \<open>p_jsonName\<close> and its upper-case form; and with no accumulated prefix the bare field
  name and json name, each with its upper-case form. The first candidate whose variable
  is set and not empty is unmarshalled as YAML into the field and the scan stops; with
  no such candidate the field is left as it is.
\<close>

theorem getEnvironmentVariables_candidates:
  "(Tag_Get (Tag fs) ''env'' \<noteq> [] \<and> globalPrefix c \<noteq> [] \<longrightarrow>
      getEnvironmentVariables c fs pfxs =
        [Tag_Get (Tag fs) ''env'',
         globalPrefix c @ ''_'' @ Tag_Get (Tag fs) ''env'',
         ToUpper (globalPrefix c) @ ''_'' @ Tag_Get (Tag fs) ''env'']) \<and>
   (Tag_Get (Tag fs) ''env'' \<noteq> [] \<and> globalPrefix c = [] \<longrightarrow>
      getEnvironmentVariables c fs pfxs = [Tag_Get (Tag fs) ''env'']) \<and>
   (Tag_Get (Tag fs) ''env'' = [] \<and> pfxs \<noteq> [] \<longrightarrow>
      getEnvironmentVariables c fs pfxs
        = concat (map (names_for_prefix (Name fs) (getJsonTag fs)) pfxs)) \<and>
   (Tag_Get (Tag fs) ''env'' = [] \<and> pfxs = [] \<longrightarrow>
      getEnvironmentVariables c fs pfxs =
        [Name fs, ToUpper (Name fs)] @
        (if getJsonTag fs \<noteq> [] then [getJsonTag fs, ToUpper (getJsonTag fs)] else [])) \<and>
   (find (\<lambda>env. Getenv p env \<noteq> []) envNames = Some env \<longrightarrow>
      loadFromShellENV p d t field envNames = yaml_Unmarshal d (Getenv p env) t field) \<and>
   (find (\<lambda>env. Getenv p env \<noteq> []) envNames = None \<longrightarrow>
      loadFromShellENV p d t field envNames = (field, None))"
  by (simp add: getEnvironmentVariables_no_env_tag getEnvironmentVariables_env_tag
      loadFromShellENV_find)

text \<open>
  The claim as first stated has the third name of a field with an \<open>env\<close> tag in upper
  case as a whole. For the password field of the test suite (\<open>env:"DBPassword"\<close>) under
  the global prefix \<open>app\<close> the third name is \<open>APP_DBPassword\<close>, which the tests set, and
  not \<open>APP_DBPASSWORD\<close>.
\<close>

theorem env_tag_upper_case_counterexample:
  "getEnvironmentVariables (example_Configor [] ''app'') password_field [''app_DB'']
     = [''DBPassword'', ''app_DBPassword'', ''APP_DBPassword''] \<and>
   getEnvironmentVariables (example_Configor [] ''app'') password_field [''app_DB'']
     \<noteq> [''DBPassword'', ''app'' @ ''_'' @ ''DBPassword'', ToUpper (''app'' @ ''_'' @ ''DBPassword'')]"
  by (simp add: getEnvironmentVariables_def password_field_def exported_field_def Tag_Get_def
      example_Configor_def ToUpper_def upper_byte_def Let_def)

theorem getEnvironmentVariables_candidates_witness:
  "getEnvironmentVariables (example_Configor [] ''app'') password_field [''app_DB'']
     = [''DBPassword'', ''app_DBPassword'', ''APP_DBPassword''] \<and>
   getEnvironmentVariables (example_Configor [] []) password_field [''DB'']
     = [''DBPassword''] \<and>
   getEnvironmentVariables (example_Configor [] ''app'') user_field [''app_DB'']
     = [''app_DB_User'', ''APP_DB_USER'', ''app_DB_user_name'', ''APP_DB_USER_NAME''] \<and>
   getEnvironmentVariables (example_Configor [] []) (exported_field ''Name'' []) []
     = [''Name'', ''NAME''] \<and>
   loadFromShellENV (example_process [(''APP_DB_USER'', ''admin''), (''APP_DB_USER_NAME'', ''guest'')] [])
       port_decoders TString (VString ''configor'')
       [''app_DB_User'', ''APP_DB_USER'', ''app_DB_user_name'', ''APP_DB_USER_NAME'']
     = (VString ''admin'', None) \<and>
   loadFromShellENV (example_process [] []) port_decoders TString (VString ''configor'')
       [''app_DB_User'', ''APP_DB_USER'', ''app_DB_user_name'', ''APP_DB_USER_NAME'']
     = (VString ''configor'', None)"
proof -
  let ?c = "example_Configor [] ''app''"
  let ?cn = "example_Configor [] []"
  let ?p = "example_process [(''APP_DB_USER'', ''admin''), (''APP_DB_USER_NAME'', ''guest'')] []"
  let ?names = "[''app_DB_User'', ''APP_DB_USER'', ''app_DB_user_name'', ''APP_DB_USER_NAME'']"
  have tags: "Tag_Get (Tag password_field) ''env'' = ''DBPassword''"
    "Tag_Get (Tag user_field) ''env'' = []" "Tag_Get (Tag (exported_field ''Name'' [])) ''env'' = []"
    "Name user_field = ''User''" "Name (exported_field ''Name'' []) = ''Name''"
    "getJsonTag (exported_field ''Name'' []) = []"
    by (simp_all add: password_field_def user_field_def exported_field_def Tag_Get_def getJsonTag_def)
  have gp: "globalPrefix ?c = ''app''" "globalPrefix ?cn = []"
    by (simp_all add: example_Configor_def)
  have f1: "find (\<lambda>env. Getenv ?p env \<noteq> []) ?names = Some ''APP_DB_USER''"
    by (simp add: example_process_def)
  have f2: "find (\<lambda>env. Getenv (example_process [] []) env \<noteq> []) ?names = None"
    by (simp add: example_process_def)
  have y: "yaml_Unmarshal port_decoders (Getenv ?p ''APP_DB_USER'') TString (VString ''configor'')
      = (VString ''admin'', None)"
    by (simp add: fixture_defs)
  note th = getEnvironmentVariables_candidates
  have 1: "getEnvironmentVariables ?c password_field [''app_DB'']
      = [''DBPassword'', ''app_DBPassword'', ''APP_DBPassword'']"
    using th [of password_field ?c "[''app_DB'']"] tags gp ToUpper_examples by simp
  have 2: "getEnvironmentVariables ?cn password_field [''DB''] = [''DBPassword'']"
    using th [of password_field ?cn "[''DB'']"] tags gp by simp
  have 3: "getEnvironmentVariables ?c user_field [''app_DB''] = ?names"
    using th [of user_field ?c "[''app_DB'']"] tags gp getJsonTag_user ToUpper_examples
    by (simp add: names_for_prefix_def)
  have 4: "getEnvironmentVariables ?cn (exported_field ''Name'' []) [] = [''Name'', ''NAME'']"
    using th [of "exported_field ''Name'' []" ?cn "[]"] tags gp ToUpper_examples by simp
  have 5: "loadFromShellENV ?p port_decoders TString (VString ''configor'') ?names
      = (VString ''admin'', None)"
    using th [of password_field ?c "[]" ?p ?names "''APP_DB_USER''" port_decoders TString
        "VString ''configor''"] f1 y by simp
  have 6: "loadFromShellENV (example_process [] []) port_decoders TString (VString ''configor'') ?names
      = (VString ''configor'', None)"
    using th [of password_field ?c "[]" "example_process [] []" ?names "''APP_DB_USER''" port_decoders
        TString "VString ''configor''"] f2 by simp
  from 1 2 3 4 5 6 show ?thesis by blast
qed

section \<open>Environment variables over file values\<close>

text \<open>
  Claim C2, as amended. Take a field that a successful walk works on in place (exported,
  not a nil pointer) at any depth of the target: a field of the target, of a nested
  struct, of a struct behind a pointer or of a struct in a slice. Let it hold \<open>v\<close> when
  the walk comes to it (the value decoded from the files, when no enclosing field was
  assigned on the way), and let \<open>n\<close> be its first candidate variable that is set and not
  empty, with a value that unmarshals without error to \<open>w\<close>. Then the environment step
  assigns \<open>w\<close> whatever \<open>v\<close> is, zero or not. When \<open>w\<close> is not the zero value of the
  type, or the field has no \<open>default\<close> tag, the field ends as \<open>w\<close> with the walk
  continued into it; a \<open>w\<close> that holds no struct (a scalar, a list of scalars) is what
  the field holds at its path in the result of the walk, and that is the result of
  \<open>Load\<close> when the files decoded to \<open>V\<close>. When \<open>w\<close> is the zero value and there is a
  \<open>default\<close> tag, the field counts as blank and the default is unmarshalled over \<open>w\<close>.
\<close>

theorem environment_value_overrides_file_value:
  "walked c p d T V P V' path fs t v q v' \<and> \<not> isNilPtr t v \<and> PkgPath fs = [] \<and>
   find (\<lambda>n. Getenv p n \<noteq> []) (getEnvironmentVariables c fs q) = Some n \<and>
   yaml_Unmarshal d (Getenv p n) t v = (w, None) \<longrightarrow>
     loadFromShellENV p d t v (getEnvironmentVariables c fs q) = (w, None) \<and>
     at_path V' path = Some v' \<and>
     (w \<noteq> zero t \<or> Tag_Get (Tag fs) ''default'' = [] \<longrightarrow>
        descend c p d fs t w q = (v', None) \<and> (plain w \<longrightarrow> v' = w)) \<and>
     (w = zero t \<and> Tag_Get (Tag fs) ''default'' \<noteq> [] \<longrightarrow>
        (\<exists>f2. yaml_Unmarshal d (Tag_Get (Tag fs) ''default'') t w = (f2, None) \<and>
              descend c p d fs t f2 q = (v', None))) \<and>
     (getConfigurationFiles c p files = Inr resolved \<and>
      processFiles c p d T config resolved = (V, None) \<and>
      P = (if globalPrefix c \<noteq> [] then [globalPrefix c] else []) \<longrightarrow>
        Load c p d T config files = (V', None))"
proof (intro impI, elim conjE)
  assume w: "walked c p d T V P V' path fs t v q v'"
    and place: "\<not> isNilPtr t v" "PkgPath fs = []"
    and found: "find (\<lambda>n. Getenv p n \<noteq> []) (getEnvironmentVariables c fs q) = Some n"
    and y: "yaml_Unmarshal d (Getenv p n) t v = (w, None)"
  have env: "loadFromShellENV p d t v (getEnvironmentVariables c fs q) = (w, None)"
    using found y by (simp add: loadFromShellENV_find)
  from walked_facts [OF w]
  have res: "processField c p d fs t v q = (v', None)" and at: "at_path V' path = Some v'"
    by simp_all
  from res env place
  have step: "(case defaultOrRequired d fs (getEnvironmentVariables c fs q) t w of
             (f2, Some e) \<Rightarrow> (f2, Some e)
           | (f2, None) \<Rightarrow> descend c p d fs t f2 q) = (v', None)"
    by (simp add: processField_in_place)
  have keep: "descend c p d fs t w q = (v', None) \<and> (plain w \<longrightarrow> v' = w)"
    if "w \<noteq> zero t \<or> Tag_Get (Tag fs) ''default'' = []"
  proof -
    from that step have "descend c p d fs t w q = (v', None)"
      by (auto simp: defaultOrRequired_def Let_def split: if_splits)
    then show ?thesis using descend_plain [of w c p d fs t q] by auto
  qed
  have dflt: "\<exists>f2. yaml_Unmarshal d (Tag_Get (Tag fs) ''default'') t w = (f2, None) \<and>
              descend c p d fs t f2 q = (v', None)"
    if "w = zero t \<and> Tag_Get (Tag fs) ''default'' \<noteq> []"
    using that step by (auto simp: defaultOrRequired_def split: prod.splits option.splits)
  have load: "Load c p d T config files = (V', None)"
    if "getConfigurationFiles c p files = Inr resolved \<and>
      processFiles c p d T config resolved = (V, None) \<and>
      P = (if globalPrefix c \<noteq> [] then [globalPrefix c] else [])"
    using that walked_root [OF w] by (simp add: Load_after_files)
  from env at keep dflt load
  show "loadFromShellENV p d t v (getEnvironmentVariables c fs q) = (w, None) \<and>
     at_path V' path = Some v' \<and>
     (w \<noteq> zero t \<or> Tag_Get (Tag fs) ''default'' = [] \<longrightarrow>
        descend c p d fs t w q = (v', None) \<and> (plain w \<longrightarrow> v' = w)) \<and>
     (w = zero t \<and> Tag_Get (Tag fs) ''default'' \<noteq> [] \<longrightarrow>
        (\<exists>f2. yaml_Unmarshal d (Tag_Get (Tag fs) ''default'') t w = (f2, None) \<and>
              descend c p d fs t f2 q = (v', None))) \<and>
     (getConfigurationFiles c p files = Inr resolved \<and>
      processFiles c p d T config resolved = (V, None) \<and>
      P = (if globalPrefix c \<noteq> [] then [globalPrefix c] else []) \<longrightarrow>
        Load c p d T config files = (V', None))"
    by blast
qed

text \<open>
  The claim as first stated has every such field hold the environment value after a
  successful \<open>Load\<close>. For the port of the database (\<open>default:"3306"\<close>), with 8080 in
  \<open>config.yaml\<close> and \<open>CONFIGOR_DB_PORT=0\<close>, \<open>Load\<close> succeeds and the port is 3306: neither
  the environment value nor the file value.
\<close>

theorem default_beats_zero_environment_value_counterexample:
  "processFiles (example_Configor [] ''Configor'') (example_process [(''CONFIGOR_DB_PORT'', ''0'')] app_files)
       app_decoders (TStruct app_fields) (zero (TStruct app_fields)) [''config.yaml'']
     = (VStruct [VString ''configor'', VSlice (Some [VString ''one'']),
                 VStruct [VString ''configor'', VInt 8080]], None) \<and>
   find (\<lambda>n. Getenv (example_process [(''CONFIGOR_DB_PORT'', ''0'')] app_files) n \<noteq> [])
       (getEnvironmentVariables (example_Configor [] ''Configor'') port_field
          (getPrefixForStruct [''Configor''] db_field))
     = Some ''CONFIGOR_DB_PORT'' \<and>
   yaml_Unmarshal app_decoders
       (Getenv (example_process [(''CONFIGOR_DB_PORT'', ''0'')] app_files) ''CONFIGOR_DB_PORT'') TInt
       (VInt 8080)
     = (VInt 0, None) \<and>
   Load (example_Configor [] ''Configor'') (example_process [(''CONFIGOR_DB_PORT'', ''0'')] app_files)
       app_decoders (TStruct app_fields) (zero (TStruct app_fields)) [''config.yaml'']
     = (VStruct [VString ''configor'', VSlice (Some [VString ''one'']),
                 VStruct [VString ''configor'', VInt 3306]], None)"
  by (simp add: load_simps app_defs walk_simps)

text \<open>
  The fields of the test suite: the name, the list of hosts and the name of the nested
  database are set from the environment over what \<open>config.yaml\<close> gave; the name of
  the second contact of a slice is set from \<open>1_NAME\<close>; the port set to 0 takes its
  default.
\<close>

theorem environment_value_overrides_file_value_witness:
  "processFiles (example_Configor [] ''Configor'') (example_process app_env app_files) app_decoders
       (TStruct app_fields) (zero (TStruct app_fields)) [''config.yaml'']
     = (app_file_value, None) \<and>
   Load (example_Configor [] ''Configor'') (example_process app_env app_files) app_decoders
       (TStruct app_fields) (zero (TStruct app_fields)) [''config.yaml'']
     = (app_loaded, None) \<and>
   at_path app_loaded [Member 0] = Some (VString ''config2'') \<and>
   at_path app_loaded [Member 1] = Some (VSlice (Some [VString ''alpha'', VString ''beta''])) \<and>
   at_path app_loaded [Member 2, Member 0] = Some (VString ''db_name'') \<and>
   loadFromShellENV (example_process app_env app_files) app_decoders TString (VString ''configor'')
       (getEnvironmentVariables (example_Configor [] ''Configor'') name_field [''Configor_DB''])
     = (VString ''db_name'', None) \<and>
   (\<exists>f2. yaml_Unmarshal app_decoders ''3306'' TInt (VInt 0) = (f2, None) \<and>
         descend (example_Configor [] ''Configor'') (example_process [(''CONFIGOR_DB_PORT'', ''0'')] app_files)
           app_decoders port_field TInt f2 [''Configor_DB'']
         = (VInt 3306, None)) \<and>
   at_path app_file_value [Member 0] = Some (VString ''configor'') \<and>
   at_path app_file_value [Member 1] = Some (VSlice (Some [VString ''one''])) \<and>
   at_path app_file_value [Member 2, Member 0] = Some (VString ''configor'') \<and>
   at_path
       (VStruct [VSlice (Some [contact_bob, VStruct [VString ''carol'', VString [], VString ''dan_mail'']]),
                 VSlice (Some [contact_dan, VStruct [VString ''carol'', VString [], VString ''bob_mail'']])])
       [Member 0, Index 1, Member 0]
     = Some (VString ''carol'')"
proof -
  let ?c = "example_Configor [] ''Configor''"
  let ?p = "example_process app_env app_files"
  let ?q = "example_process [(''CONFIGOR_DB_PORT'', ''0'')] app_files"
  let ?d = app_decoders
  let ?T = "TStruct app_fields"
  let ?V = app_file_value
  let ?P = "[''Configor'']"
  let ?db = "VStruct [VString ''configor'', VInt 8080]"
  let ?hosts = "VSlice (Some [VString ''alpha'', VString ''beta''])"
  let ?Vq = "VStruct [VString ''configor'', VSlice (Some [VString ''one'']),
                 VStruct [VString ''configor'', VInt 3306]]"
  note th = environment_value_overrides_file_value
  have files: "getConfigurationFiles ?c ?p [''config.yaml''] = Inr [''config.yaml'']"
    "processFiles ?c ?p ?d ?T (zero ?T) [''config.yaml''] = (?V, None)"
    "?P = (if globalPrefix ?c \<noteq> [] then [globalPrefix ?c] else [])"
    by (simp_all add: load_simps app_defs)
  have walk: "processTags ?c ?p ?d ?T ?V ?P = (app_loaded, None)"
    by (simp add: app_loaded_def app_defs walk_simps)
  have walkq: "processTags ?c ?q ?d ?T ?V ?P = (?Vq, None)"
    by (simp add: app_defs walk_simps)
  have shape: "?T = TStruct app_fields" "?V = VStruct [VString ''configor'',
      VSlice (Some [VString ''one'']), ?db]"
    "app_loaded = VStruct [VString ''config2'', ?hosts, VStruct [VString ''db_name'', VInt 8080]]"
    by (simp_all add: app_file_value_def app_loaded_def)
  have w0: "walked ?c ?p ?d ?T ?V ?P app_loaded [Member 0] appname_field TString
      (VString ''configor'') ?P (VString ''config2'')"
    using walked.top [OF walk shape, of 0] by (simp add: app_fields_def)
  have w1: "walked ?c ?p ?d ?T ?V ?P app_loaded [Member 1] hosts_field (TSlice TString)
      (VSlice (Some [VString ''one''])) ?P ?hosts"
    using walked.top [OF walk shape, of 1] by (simp add: app_fields_def)
  have w2: "walked ?c ?p ?d ?T ?V ?P app_loaded [Member 2] db_field (TStruct db_fields) ?db ?P
      (VStruct [VString ''db_name'', VInt 8080])"
    using walked.top [OF walk shape, of 2] by (simp add: app_fields_def)
  have pdb: "getPrefixForStruct ?P db_field = [''Configor_DB'']"
    by (simp add: getPrefixForStruct_eq db_field_def exported_field_def Tag_Get_def getJsonTag_def)
  have dbstep: "\<not> isNilPtr (TStruct db_fields) ?db" "PkgPath db_field = []"
    "loadFromShellENV ?p ?d (TStruct db_fields) ?db (getEnvironmentVariables ?c db_field ?P) = (?db, None)"
    "loadFromShellENV ?q ?d (TStruct db_fields) ?db (getEnvironmentVariables ?c db_field ?P) = (?db, None)"
    "defaultOrRequired ?d db_field (getEnvironmentVariables ?c db_field ?P) (TStruct db_fields) ?db
       = (?db, None)"
    "structOf (TStruct db_fields) ?db = Some (db_fields, [VString ''configor'', VInt 8080])"
    by (simp_all add: app_defs walk_simps)
  have w20: "walked ?c ?p ?d ?T ?V ?P app_loaded [Member 2, Member 0] name_field TString
      (VString ''configor'') [''Configor_DB''] (VString ''db_name'')"
    using walked.member [OF w2 dbstep(1,2,3,5,6), of "[VString ''db_name'', VInt 8080]" 0] pdb
    by (simp add: db_fields_def)
  have shapeq: "?Vq = VStruct [VString ''configor'', VSlice (Some [VString ''one'']),
                 VStruct [VString ''configor'', VInt 3306]]"
    by simp
  have q2: "walked ?c ?q ?d ?T ?V ?P ?Vq [Member 2] db_field (TStruct db_fields) ?db ?P
      (VStruct [VString ''configor'', VInt 3306])"
    using walked.top [OF walkq shape(1,2) shapeq, of 2] by (simp add: app_fields_def)
  have q21: "walked ?c ?q ?d ?T ?V ?P ?Vq [Member 2, Member 1] port_field TInt (VInt 8080)
      [''Configor_DB''] (VInt 3306)"
    using walked.member [OF q2 dbstep(1,2,4,5,6), of "[VString ''configor'', VInt 3306]" 1] pdb
    by (simp add: db_fields_def)
  have names: "getEnvironmentVariables ?c appname_field ?P = [''Configor_APPName'', ''CONFIGOR_APPNAME'']"
    "getEnvironmentVariables ?c hosts_field ?P = [''Configor_Hosts'', ''CONFIGOR_HOSTS'']"
    "getEnvironmentVariables ?c name_field [''Configor_DB''] = [''Configor_DB_Name'', ''CONFIGOR_DB_NAME'']"
    "getEnvironmentVariables ?c port_field [''Configor_DB''] = [''Configor_DB_Port'', ''CONFIGOR_DB_PORT'']"
    by (simp_all add: app_defs walk_simps)
  have place: "\<not> isNilPtr TString (VString ''configor'')" "PkgPath appname_field = []"
    "\<not> isNilPtr (TSlice TString) (VSlice (Some [VString ''one'']))" "PkgPath hosts_field = []"
    "PkgPath name_field = []" "\<not> isNilPtr TInt (VInt 8080)" "PkgPath port_field = []"
    by (simp_all add: app_defs)
  have found: "find (\<lambda>n. Getenv ?p n \<noteq> []) [''Configor_APPName'', ''CONFIGOR_APPNAME'']
      = Some ''CONFIGOR_APPNAME''"
    "find (\<lambda>n. Getenv ?p n \<noteq> []) [''Configor_Hosts'', ''CONFIGOR_HOSTS''] = Some ''CONFIGOR_HOSTS''"
    "find (\<lambda>n. Getenv ?p n \<noteq> []) [''Configor_DB_Name'', ''CONFIGOR_DB_NAME'']
      = Some ''CONFIGOR_DB_NAME''"
    "find (\<lambda>n. Getenv ?q n \<noteq> []) [''Configor_DB_Port'', ''CONFIGOR_DB_PORT'']
      = Some ''CONFIGOR_DB_PORT''"
    by (simp_all add: app_defs)
  have y: "yaml_Unmarshal ?d (Getenv ?p ''CONFIGOR_APPNAME'') TString (VString ''configor'')
      = (VString ''config2'', None)"
    "yaml_Unmarshal ?d (Getenv ?p ''CONFIGOR_HOSTS'') (TSlice TString) (VSlice (Some [VString ''one'']))
      = (?hosts, None)"
    "yaml_Unmarshal ?d (Getenv ?p ''CONFIGOR_DB_NAME'') TString (VString ''configor'')
      = (VString ''db_name'', None)"
    "yaml_Unmarshal ?d (Getenv ?q ''CONFIGOR_DB_PORT'') TInt (VInt 8080) = (VInt 0, None)"
    by (simp_all add: app_defs decimal_def digit_value_def)
  have tags: "Tag_Get (Tag port_field) ''default'' = ''3306''"
    by (simp add: port_field_def exported_field_def Tag_Get_def)
  have 1: "processFiles ?c ?p ?d ?T (zero ?T) [''config.yaml''] = (app_file_value, None)"
    by (rule files(2))
  have 2: "Load ?c ?p ?d ?T (zero ?T) [''config.yaml''] = (app_loaded, None)"
    and 3: "at_path app_loaded [Member 0] = Some (VString ''config2'')"
    using th [of ?c ?p ?d ?T ?V ?P app_loaded "[Member 0]" appname_field TString "VString ''configor''"
        ?P "VString ''config2''" "''CONFIGOR_APPNAME''" "VString ''config2''" "[''config.yaml'']"
        "[''config.yaml'']" "zero ?T"]
      w0 place names found y files
    by simp_all
  have 4: "at_path app_loaded [Member 1] = Some ?hosts"
    using th [of ?c ?p ?d ?T ?V ?P app_loaded "[Member 1]" hosts_field "TSlice TString"
        "VSlice (Some [VString ''one''])" ?P ?hosts "''CONFIGOR_HOSTS''" ?hosts]
      w1 place names found y
    by simp
  have 5: "at_path app_loaded [Member 2, Member 0] = Some (VString ''db_name'')"
    and 6: "loadFromShellENV ?p ?d TString (VString ''configor'')
       (getEnvironmentVariables ?c name_field [''Configor_DB'']) = (VString ''db_name'', None)"
    using th [of ?c ?p ?d ?T ?V ?P app_loaded "[Member 2, Member 0]" name_field TString
        "VString ''configor''" "[''Configor_DB'']" "VString ''db_name''" "''CONFIGOR_DB_NAME''"
        "VString ''db_name''"]
      w20 place names found y
    by simp_all
  have 7: "\<exists>f2. yaml_Unmarshal ?d ''3306'' TInt (VInt 0) = (f2, None) \<and>
         descend ?c ?q ?d port_field TInt f2 [''Configor_DB''] = (VInt 3306, None)"
    using th [of ?c ?q ?d ?T ?V ?P ?Vq "[Member 2, Member 1]" port_field TInt "VInt 8080"
        "[''Configor_DB'']" "VInt 3306" "''CONFIGOR_DB_PORT''" "VInt 0"]
      q21 place names found y tags
    by simp
  let ?e = "example_process [(''1_NAME'', ''carol'')] []"
  let ?Tt = "TStruct team_fields"
  let ?carol = "VStruct [VString ''carol'', VString [], VString ''dan_mail'']"
  let ?U = "VStruct [VSlice (Some [contact_bob, contact_dan]), VSlice (Some [contact_dan, contact_bob])]"
  let ?U' = "VStruct [VSlice (Some [contact_bob, ?carol]),
              VSlice (Some [contact_dan, VStruct [VString ''carol'', VString [], VString ''bob_mail'']])]"
  let ?nf = "exported_field ''Name'' [(''json'', ''first_name'')]"
  have sp: "Sprint 0 = ''0''" "Sprint 1 = ''1''" "Sprint (Suc 0) = ''1''"
    by (simp_all add: Sprint.simps digit_char_def)
  have walke: "processTags ?c ?e port_decoders ?Tt ?U ?P = (?U', None)"
    by (simp add: sp team_fields_def admins_field_def contacts_field_def contact_fields_def
        contact_bob_def contact_dan_def fixture_defs example_Configor_def walk_simps)
  have e0: "walked ?c ?e port_decoders ?Tt ?U ?P ?U' [Member 0] contacts_field
      (TSlice (TStruct contact_fields)) (VSlice (Some [contact_bob, contact_dan])) ?P
      (VSlice (Some [contact_bob, ?carol]))"
    using walked.top [OF walke refl refl refl, of 0] by (simp add: team_fields_def)
  have pcs: "getPrefixForStruct ?P contacts_field = [''Configor_Contacts'']"
    by (simp add: getPrefixForStruct_eq contacts_field_def exported_field_def Tag_Get_def getJsonTag_def)
  have cstep: "\<not> isNilPtr (TSlice (TStruct contact_fields)) (VSlice (Some [contact_bob, contact_dan]))"
    "PkgPath contacts_field = []"
    "loadFromShellENV ?e port_decoders (TSlice (TStruct contact_fields))
       (VSlice (Some [contact_bob, contact_dan])) (getEnvironmentVariables ?c contacts_field ?P)
     = (VSlice (Some [contact_bob, contact_dan]), None)"
    "defaultOrRequired port_decoders contacts_field (getEnvironmentVariables ?c contacts_field ?P)
       (TSlice (TStruct contact_fields)) (VSlice (Some [contact_bob, contact_dan]))
     = (VSlice (Some [contact_bob, contact_dan]), None)"
    "sliceOf (TSlice (TStruct contact_fields)) (VSlice (Some [contact_bob, contact_dan]))
     = Some (TStruct contact_fields, [contact_bob, contact_dan])"
    "elements (VSlice (Some [contact_bob, ?carol])) = Some [contact_bob, ?carol]"
    by (simp_all add: contacts_field_def contact_bob_def contact_dan_def fixture_defs
        example_Configor_def walk_simps)
  have e1: "walked ?c ?e port_decoders ?Tt ?U ?P ?U' [Member 0, Index 1, Member 0] ?nf TString
      (VString ''dan'') [''Configor_Contacts'', ''1''] (VString ''carol'')"
    using walked.element [OF e0 cstep, of 1 "[VString ''dan'', VString [], VString ''dan_mail'']"
        "[VString ''carol'', VString [], VString ''dan_mail'']" 0] pcs sp
    by (simp add: contact_fields_def contact_dan_def)
  have estep: "\<not> isNilPtr TString (VString ''dan'')" "PkgPath ?nf = []"
    "find (\<lambda>n. Getenv ?e n \<noteq> []) (getEnvironmentVariables ?c ?nf [''Configor_Contacts'', ''1''])
       = Some ''1_NAME''"
    "yaml_Unmarshal port_decoders (Getenv ?e ''1_NAME'') TString (VString ''dan'') = (VString ''carol'', None)"
    by (simp_all add: fixture_defs example_Configor_def walk_simps)
  have 9: "at_path ?U' [Member 0, Index 1, Member 0] = Some (VString ''carol'')"
    using th [of ?c ?e port_decoders ?Tt ?U ?P ?U' "[Member 0, Index 1, Member 0]" ?nf TString
        "VString ''dan''" "[''Configor_Contacts'', ''1'']" "VString ''carol''" "''1_NAME''"
        "VString ''carol''"]
      e1 estep
    by simp
  have 8: "at_path app_file_value [Member 0] = Some (VString ''configor'')"
    "at_path app_file_value [Member 1] = Some (VSlice (Some [VString ''one'']))"
    "at_path app_file_value [Member 2, Member 0] = Some (VString ''configor'')"
    by (simp_all add: app_file_value_def)
  from 1 2 3 4 5 6 7 8 9 show ?thesis by blast
qed

section \<open>Defaults and required fields\<close>



section \<open>Prefixes of nested structs and of slice elements\<close>




section \<open>The resolved files\<close>

text \<open>
  Claim C5. Given the candidate files and the environment name, the resolver visits the
  candidates in reverse caller order and emits for each one the base file if it is a
  regular file, then the environment-suffixed sibling (\<open>name.ENV.ext\<close>, or \<open>name.ENV\<close>
  when the path has no extension) if that is a regular file, and the example-suffixed
  sibling only when neither exists and it does; nothing otherwise.
\<close>

theorem getConfigurationFiles_resolution:
  "(GetEnvironment c p = Inr env \<longrightarrow>
      getConfigurationFiles c p files = Inr (concat (map (resolved_for p env) (rev files)))) \<and>
   (Ext file = [] \<longrightarrow> envFileName file name = file @ ''.'' @ name) \<and>
   (Ext file \<noteq> [] \<longrightarrow>
      (\<exists>stem. file = stem @ Ext file \<and> envFileName file name = stem @ ''.'' @ name @ Ext file))"
proof (intro conjI impI)
  assume "GetEnvironment c p = Inr env"
  then show "getConfigurationFiles c p files = Inr (concat (map (resolved_for p env) (rev files)))"
    by (simp add: getConfigurationFiles_def getConfigurationFiles_loop_eq)
next
  assume "Ext file = []"
  then show "envFileName file name = file @ ''.'' @ name" by (rule envFileName_no_ext)
next
  assume "Ext file \<noteq> []"
  then show "\<exists>stem. file = stem @ Ext file \<and> envFileName file name = stem @ ''.'' @ name @ Ext file"
    by (rule envFileName_ext)
qed

theorem getConfigurationFiles_resolution_witness:
  "GetEnvironment (example_Configor ''production'' ''APP'') (example_process [] example_files)
     = Inr ''production'' \<and>
   getConfigurationFiles (example_Configor ''production'' ''APP'') (example_process [] example_files)
       [''conf/app.yaml'', ''conf/db'', ''conf/missing.json'', ''conf/log.toml'']
     = Inr [''conf/log.production.toml'', ''conf/db.example'', ''conf/app.yaml'',
            ''conf/app.production.yaml''] \<and>
   Ext ''conf/db'' = [] \<and> envFileName ''conf/db'' ''example'' = ''conf/db.example'' \<and>
   Ext ''conf/app.yaml'' = ''.yaml'' \<and>
   envFileName ''conf/app.yaml'' ''production'' = ''conf/app.production.yaml''"
proof -
  let ?c = "example_Configor ''production'' ''APP''"
  let ?p = "example_process [] example_files"
  have env: "GetEnvironment ?c ?p = Inr ''production''"
    by (simp add: GetEnvironment_def example_Configor_def)
  have e1: "Ext ''conf/db'' = []" and e2: "Ext ''conf/app.yaml'' = ''.yaml''"
    and e3: "Ext ''conf/missing.json'' = ''.json''" and e4: "Ext ''conf/log.toml'' = ''.toml''"
    by (simp_all add: Ext_def)
  have n: "envFileName ''conf/db'' ''example'' = ''conf/db.example''"
      "envFileName ''conf/db'' ''production'' = ''conf/db.production''"
      "envFileName ''conf/app.yaml'' ''production'' = ''conf/app.production.yaml''"
      "envFileName ''conf/app.yaml'' ''example'' = ''conf/app.example.yaml''"
      "envFileName ''conf/missing.json'' ''production'' = ''conf/missing.production.json''"
      "envFileName ''conf/missing.json'' ''example'' = ''conf/missing.example.json''"
      "envFileName ''conf/log.toml'' ''production'' = ''conf/log.production.toml''"
      "envFileName ''conf/log.toml'' ''example'' = ''conf/log.example.toml''"
    by (simp_all add: envFileName_def e1 e2 e3 e4 TrimSuffix_def HasSuffix_def)
  have r: "concat (map (resolved_for ?p ''production'')
             (rev [''conf/app.yaml'', ''conf/db'', ''conf/missing.json'', ''conf/log.toml'']))
           = [''conf/log.production.toml'', ''conf/db.example'', ''conf/app.yaml'',
              ''conf/app.production.yaml'']"
    by (simp add: resolved_for_def n IsRegularFile_def example_process_def example_files_def)
  show ?thesis
    using getConfigurationFiles_resolution [of ?c ?p "''production''"
        "[''conf/app.yaml'', ''conf/db'', ''conf/missing.json'', ''conf/log.toml'']"
        "''conf/db''" "''example''"]
      getConfigurationFiles_resolution [of ?c ?p "''production''" "[]"
        "''conf/app.yaml''" "''production''"]
      env r e1 e2 n
    by simp
qed

section \<open>Decoding a file\<close>

text \<open>
  Claim C6. Decoding a file dispatches on its extension: \<open>.yaml\<close>/\<open>.yml\<close> to YAML (strict
  or not), \<open>.toml\<close> to TOML, \<open>.json\<close> to JSON. For any other name TOML is tried first,
  then JSON, then YAML: the first format that decodes without error is the result; an
  unmatched-keys error of TOML, an error of JSON whose message contains
  \<open>json: unknown field\<close>, and a type error of YAML are returned as they are instead of
  falling through; and when every format fails the error is \<open>failed to decode config\<close>.
\<close>

theorem processFile_dispatch:
  "ReadFile p file = Inr content \<longrightarrow>
     (HasSuffix file ''.yaml'' \<or> HasSuffix file ''.yml'' \<longrightarrow>
        processFile d p t config file strict =
          (if strict then yaml_UnmarshalStrict d else yaml_Unmarshal d) content t config) \<and>
     (HasSuffix file ''.toml'' \<longrightarrow>
        processFile d p t config file strict = unmarshalToml d content t config strict) \<and>
     (HasSuffix file ''.json'' \<longrightarrow>
        processFile d p t config file strict = unmarshalJSON d content t config strict) \<and>
     (\<not> recognised file \<longrightarrow>
        (unmarshalToml d content t config strict = (c1, None) \<longrightarrow>
           processFile d p t config file strict = (c1, None)) \<and>
        (unmarshalToml d content t config strict = (c1, Some (UnmatchedTomlKeysError ks)) \<longrightarrow>
           processFile d p t config file strict = (c1, Some (UnmatchedTomlKeysError ks))) \<and>
        (unmarshalToml d content t config strict = (c1, Some e1) \<and> \<not> isUnmatchedTomlKeysError e1 \<longrightarrow>
           (unmarshalJSON d content t c1 strict = (c2, None) \<longrightarrow>
              processFile d p t config file strict = (c2, None)) \<and>
           (unmarshalJSON d content t c1 strict = (c2, Some e2) \<and>
            sublist ''json: unknown field'' (Error e2) \<longrightarrow>
              processFile d p t config file strict = (c2, Some e2)) \<and>
           (unmarshalJSON d content t c1 strict = (c2, Some e2) \<and>
            \<not> sublist ''json: unknown field'' (Error e2) \<longrightarrow>
              ((if strict then yaml_UnmarshalStrict d else yaml_Unmarshal d) content t c2 = (c3, None) \<longrightarrow>
                 processFile d p t config file strict = (c3, None)) \<and>
              ((if strict then yaml_UnmarshalStrict d else yaml_Unmarshal d) content t c2
                 = (c3, Some (YamlTypeError es)) \<longrightarrow>
                 processFile d p t config file strict = (c3, Some (YamlTypeError es))) \<and>
              ((if strict then yaml_UnmarshalStrict d else yaml_Unmarshal d) content t c2 = (c3, Some e3) \<and>
               \<not> isYamlTypeError e3 \<longrightarrow>
                 processFile d p t config file strict
                   = (c3, Some (ErrorString ''failed to decode config''))))))"
proof (intro impI)
  assume rd: "ReadFile p file = Inr content"
  have yaml: "processFile d p t config file strict =
          (if strict then yaml_UnmarshalStrict d else yaml_Unmarshal d) content t config"
    if "HasSuffix file ''.yaml'' \<or> HasSuffix file ''.yml''"
    using that rd by (simp add: processFile_def yaml_by_mode_def)
  have toml: "processFile d p t config file strict = unmarshalToml d content t config strict"
    if "HasSuffix file ''.toml''"
    using that rd toml_not_yaml [of "file"] by (simp add: processFile_def)
  have json: "processFile d p t config file strict = unmarshalJSON d content t config strict"
    if "HasSuffix file ''.json''"
    using that rd json_not_others [of "file"] by (simp add: processFile_def)
  show "(HasSuffix file ''.yaml'' \<or> HasSuffix file ''.yml'' \<longrightarrow>
        processFile d p t config file strict =
          (if strict then yaml_UnmarshalStrict d else yaml_Unmarshal d) content t config) \<and>
     (HasSuffix file ''.toml'' \<longrightarrow>
        processFile d p t config file strict = unmarshalToml d content t config strict) \<and>
     (HasSuffix file ''.json'' \<longrightarrow>
        processFile d p t config file strict = unmarshalJSON d content t config strict) \<and>
     (\<not> recognised file \<longrightarrow>
        (unmarshalToml d content t config strict = (c1, None) \<longrightarrow>
           processFile d p t config file strict = (c1, None)) \<and>
        (unmarshalToml d content t config strict = (c1, Some (UnmatchedTomlKeysError ks)) \<longrightarrow>
           processFile d p t config file strict = (c1, Some (UnmatchedTomlKeysError ks))) \<and>
        (unmarshalToml d content t config strict = (c1, Some e1) \<and> \<not> isUnmatchedTomlKeysError e1 \<longrightarrow>
           (unmarshalJSON d content t c1 strict = (c2, None) \<longrightarrow>
              processFile d p t config file strict = (c2, None)) \<and>
           (unmarshalJSON d content t c1 strict = (c2, Some e2) \<and>
            sublist ''json: unknown field'' (Error e2) \<longrightarrow>
              processFile d p t config file strict = (c2, Some e2)) \<and>
           (unmarshalJSON d content t c1 strict = (c2, Some e2) \<and>
            \<not> sublist ''json: unknown field'' (Error e2) \<longrightarrow>
              ((if strict then yaml_UnmarshalStrict d else yaml_Unmarshal d) content t c2 = (c3, None) \<longrightarrow>
                 processFile d p t config file strict = (c3, None)) \<and>
              ((if strict then yaml_UnmarshalStrict d else yaml_Unmarshal d) content t c2
                 = (c3, Some (YamlTypeError es)) \<longrightarrow>
                 processFile d p t config file strict = (c3, Some (YamlTypeError es))) \<and>
              ((if strict then yaml_UnmarshalStrict d else yaml_Unmarshal d) content t c2 = (c3, Some e3) \<and>
               \<not> isYamlTypeError e3 \<longrightarrow>
                 processFile d p t config file strict
                   = (c3, Some (ErrorString ''failed to decode config''))))))"
    apply (intro conjI impI)
    subgoal by (rule yaml)
    subgoal by (rule toml)
    subgoal by (rule json)
    subgoal using rd by (simp add: processFile_default)
    subgoal using rd by (simp add: processFile_default)
    subgoal using rd by (simp add: processFile_default)
    subgoal using rd by (simp add: processFile_default Contains_sublist)
    subgoal using rd by (simp add: processFile_default Contains_sublist yaml_by_mode_def)
    subgoal using rd by (simp add: processFile_default Contains_sublist yaml_by_mode_def)
    subgoal using rd by (simp add: processFile_default Contains_sublist yaml_by_mode_def)
    done
qed

theorem processFile_dispatch_witness:
  "processFile port_decoders (example_process [] port_files) port_ty (VStruct [VInt 0]) ''cfg.yaml'' False
     = (VStruct [VInt 8080], None) \<and>
   processFile port_decoders (example_process [] port_files) port_ty (VStruct [VInt 0]) ''cfg.toml'' False
     = (VStruct [VInt 8080], None) \<and>
   processFile port_decoders (example_process [] port_files) port_ty (VStruct [VInt 0]) ''cfg.json'' False
     = (VStruct [VInt 0], None) \<and>
   processFile port_decoders (example_process [] port_files) port_ty (VStruct [VInt 0]) ''cfg1'' True
     = (VStruct [VInt 8080], None) \<and>
   processFile port_decoders (example_process [] port_files) port_ty (VStruct [VInt 0]) ''cfg2'' True
     = (VStruct [VInt 0], Some (UnmatchedTomlKeysError [[''Test'']])) \<and>
   processFile port_decoders (example_process [] port_files) port_ty (VStruct [VInt 0]) ''cfg3'' True
     = (VStruct [VInt 0], None) \<and>
   processFile port_decoders (example_process [] port_files) port_ty (VStruct [VInt 0]) ''cfg4'' True
     = (VStruct [VInt 0], Some (ExternalError (''json: unknown field '' @ dq @ ''Test'' @ dq))) \<and>
   processFile port_decoders (example_process [] port_files) port_ty (VStruct [VInt 0]) ''cfg5'' True
     = (VStruct [VInt 8080], None) \<and>
   processFile port_decoders (example_process [] port_files) port_ty (VStruct [VInt 0]) ''cfg6'' True
     = (VStruct [VInt 0], Some (YamlTypeError [''line 1: cannot unmarshal !!str into int''])) \<and>
   processFile port_decoders (example_process [] port_files) port_ty (VStruct [VInt 0]) ''cfg7'' True
     = (VStruct [VInt 0], Some (ErrorString ''failed to decode config''))"
proof -
  let ?p = "example_process [] port_files"
  let ?d = port_decoders
  let ?z = "VStruct [VInt 0]"
  let ?te = "ExternalError ''toml: expected key separator''"
  let ?je = "ExternalError ''invalid character looking for beginning of value''"
  have rd: "ReadFile ?p ''cfg.yaml'' = Inr ''Port: 8080''" "ReadFile ?p ''cfg.toml'' = Inr ''Port = 8080''"
    "ReadFile ?p ''cfg.json'' = Inr ''{}''" "ReadFile ?p ''cfg1'' = Inr ''Port = 8080''"
    "ReadFile ?p ''cfg2'' = Inr ''Test = 1''" "ReadFile ?p ''cfg3'' = Inr ''{}''"
    "ReadFile ?p ''cfg4'' = Inr doc_json_unknown" "ReadFile ?p ''cfg5'' = Inr ''Port: 8080''"
    "ReadFile ?p ''cfg6'' = Inr ''Port: abc''" "ReadFile ?p ''cfg7'' = Inr ''{''"
    by (simp_all add: example_process_def port_files_def doc_json_unknown_def dq_def)
  have ext: "HasSuffix ''cfg.yaml'' ''.yaml''" "HasSuffix ''cfg.toml'' ''.toml''"
    "HasSuffix ''cfg.json'' ''.json''" "\<not> recognised ''cfg1''" "\<not> recognised ''cfg2''"
    "\<not> recognised ''cfg3''" "\<not> recognised ''cfg4''" "\<not> recognised ''cfg5''"
    "\<not> recognised ''cfg6''" "\<not> recognised ''cfg7''"
    by (simp_all add: recognised_def HasSuffix_def)
  have toml: "unmarshalToml ?d ''Port = 8080'' port_ty ?z False = (VStruct [VInt 8080], None)"
    "unmarshalToml ?d ''Port = 8080'' port_ty ?z True = (VStruct [VInt 8080], None)"
    "unmarshalToml ?d ''Test = 1'' port_ty ?z True = (?z, Some (UnmatchedTomlKeysError [[''Test'']]))"
    "unmarshalToml ?d ''{}'' port_ty ?z True = (?z, Some ?te)"
    "unmarshalToml ?d doc_json_unknown port_ty ?z True = (?z, Some ?te)"
    "unmarshalToml ?d ''Port: 8080'' port_ty ?z True = (?z, Some ?te)"
    "unmarshalToml ?d ''Port: abc'' port_ty ?z True = (?z, Some ?te)"
    "unmarshalToml ?d ''{'' port_ty ?z True = (?z, Some ?te)"
    "\<not> isUnmatchedTomlKeysError ?te"
    by (simp_all add: unmarshalToml_def fixture_defs)
  have json: "unmarshalJSON ?d ''{}'' port_ty ?z False = (?z, None)"
    "unmarshalJSON ?d ''{}'' port_ty ?z True = (?z, None)"
    "unmarshalJSON ?d doc_json_unknown port_ty ?z True
       = (?z, Some (ExternalError (''json: unknown field '' @ dq @ ''Test'' @ dq)))"
    "unmarshalJSON ?d ''Port: 8080'' port_ty ?z True = (?z, Some ?je)"
    "unmarshalJSON ?d ''Port: abc'' port_ty ?z True = (?z, Some ?je)"
    "unmarshalJSON ?d ''{'' port_ty ?z True = (?z, Some ?je)"
    by (simp_all add: fixture_defs)
  have msg: "sublist ''json: unknown field'' (Error (ExternalError (''json: unknown field '' @ dq @ ''Test'' @ dq)))"
    "\<not> sublist ''json: unknown field'' (Error ?je)"
    unfolding Contains_sublist [symmetric] by (simp_all add: dq_def)
  have yaml: "yaml_Unmarshal ?d ''Port: 8080'' port_ty ?z = (VStruct [VInt 8080], None)"
    "yaml_UnmarshalStrict ?d ''Port: 8080'' port_ty ?z = (VStruct [VInt 8080], None)"
    "yaml_UnmarshalStrict ?d ''Port: abc'' port_ty ?z
       = (?z, Some (YamlTypeError [''line 1: cannot unmarshal !!str into int'']))"
    "yaml_UnmarshalStrict ?d ''{'' port_ty ?z
       = (?z, Some (ExternalError ''yaml: document outside the fixture''))"
    "\<not> isYamlTypeError (ExternalError ''yaml: document outside the fixture'')"
    by (simp_all add: fixture_defs)
  note th = processFile_dispatch [where d = ?d and p = ?p and t = port_ty and config = ?z]
  have 1: "processFile ?d ?p port_ty ?z ''cfg.yaml'' False = (VStruct [VInt 8080], None)"
    using th [where ?file = "''cfg.yaml''" and content = "''Port: 8080''" and strict = False] rd ext yaml
    by simp
  have 2: "processFile ?d ?p port_ty ?z ''cfg.toml'' False = (VStruct [VInt 8080], None)"
    using th [where ?file = "''cfg.toml''" and content = "''Port = 8080''" and strict = False] rd ext toml
    by simp
  have 3: "processFile ?d ?p port_ty ?z ''cfg.json'' False = (?z, None)"
    using th [where ?file = "''cfg.json''" and content = "''{}''" and strict = False] rd ext json
    by simp
  have 4: "processFile ?d ?p port_ty ?z ''cfg1'' True = (VStruct [VInt 8080], None)"
    using th [where ?file = "''cfg1''" and content = "''Port = 8080''" and strict = True
        and ?c1.0 = "VStruct [VInt 8080]"] rd ext toml
    by simp
  have 5: "processFile ?d ?p port_ty ?z ''cfg2'' True = (?z, Some (UnmatchedTomlKeysError [[''Test'']]))"
    using th [where ?file = "''cfg2''" and content = "''Test = 1''" and strict = True
        and ?c1.0 = ?z and ks = "[[''Test'']]"] rd ext toml
    by simp
  have 6: "processFile ?d ?p port_ty ?z ''cfg3'' True = (?z, None)"
    using th [where ?file = "''cfg3''" and content = "''{}''" and strict = True
        and ?c1.0 = ?z and ?e1.0 = ?te and ?c2.0 = ?z] rd ext toml json
    by simp
  have 7: "processFile ?d ?p port_ty ?z ''cfg4'' True
       = (?z, Some (ExternalError (''json: unknown field '' @ dq @ ''Test'' @ dq)))"
    using th [where ?file = "''cfg4''" and content = doc_json_unknown and strict = True
        and ?c1.0 = ?z and ?e1.0 = ?te and ?c2.0 = ?z
        and ?e2.0 = "ExternalError (''json: unknown field '' @ dq @ ''Test'' @ dq)"] rd ext toml json msg
    by simp
  have 8: "processFile ?d ?p port_ty ?z ''cfg5'' True = (VStruct [VInt 8080], None)"
    using th [where ?file = "''cfg5''" and content = "''Port: 8080''" and strict = True
        and ?c1.0 = ?z and ?e1.0 = ?te and ?c2.0 = ?z and ?e2.0 = ?je
        and ?c3.0 = "VStruct [VInt 8080]"] rd ext toml json msg yaml
    by simp
  have 9: "processFile ?d ?p port_ty ?z ''cfg6'' True
       = (?z, Some (YamlTypeError [''line 1: cannot unmarshal !!str into int'']))"
    using th [where ?file = "''cfg6''" and content = "''Port: abc''" and strict = True
        and ?c1.0 = ?z and ?e1.0 = ?te and ?c2.0 = ?z and ?e2.0 = ?je and ?c3.0 = ?z
        and es = "[''line 1: cannot unmarshal !!str into int'']"] rd ext toml json msg yaml
    by simp
  have 10: "processFile ?d ?p port_ty ?z ''cfg7'' True = (?z, Some (ErrorString ''failed to decode config''))"
    using th [where ?file = "''cfg7''" and content = "''{''" and strict = True
        and ?c1.0 = ?z and ?e1.0 = ?te and ?c2.0 = ?z and ?e2.0 = ?je and ?c3.0 = ?z
        and ?e3.0 = "ExternalError ''yaml: document outside the fixture''"] rd ext toml json msg yaml
    by simp
  from 1 2 3 4 5 6 7 8 9 10 show ?thesis by blast
qed

section \<open>Unmatched keys of a TOML document\<close>

text \<open>
  Claim C7. For a TOML document that the library decodes and that holds keys the target
  does not declare (the keys of \<open>metadata.Undecoded()\<close>): with the strict flag on,
  decoding fails with an \<open>UnmatchedTomlKeysError\<close> whose keys are exactly the undecoded
  ones; with the flag off it succeeds and the extra keys are ignored. The same holds
  through \<open>processFile\<close> for a \<open>.toml\<close> file and for a file with no recognised extension.
\<close>

theorem unmarshalToml_unmatched_keys:
  "toml_Decode d content t config = (config', undecoded, None) \<and> undecoded \<noteq> [] \<longrightarrow>
     unmarshalToml d content t config True = (config', Some (UnmatchedTomlKeysError undecoded)) \<and>
     unmarshalToml d content t config False = (config', None) \<and>
     (ReadFile p file = Inr content \<and> (HasSuffix file ''.toml'' \<or> \<not> recognised file) \<longrightarrow>
        processFile d p t config file True = (config', Some (UnmatchedTomlKeysError undecoded)) \<and>
        processFile d p t config file False = (config', None))"
proof (intro impI conjI; elim conjE)
  assume dec: "toml_Decode d content t config = (config', undecoded, None)" and ne: "undecoded \<noteq> []"
  show strict: "unmarshalToml d content t config True = (config', Some (UnmatchedTomlKeysError undecoded))"
    using dec ne by (simp add: unmarshalToml_def)
  show lax: "unmarshalToml d content t config False = (config', None)"
    using dec by (simp add: unmarshalToml_def)
  assume rd: "ReadFile p file = Inr content" and ext: "HasSuffix file ''.toml'' \<or> \<not> recognised file"
  from ext show "processFile d p t config file True = (config', Some (UnmatchedTomlKeysError undecoded))"
  proof
    assume "HasSuffix file ''.toml''"
    with rd strict toml_not_yaml [of "file"] show ?thesis by (simp add: processFile_def)
  next
    assume "\<not> recognised file"
    with rd strict show ?thesis by (simp add: processFile_default)
  qed
  from ext show "processFile d p t config file False = (config', None)"
  proof
    assume "HasSuffix file ''.toml''"
    with rd lax toml_not_yaml [of "file"] show ?thesis by (simp add: processFile_def)
  next
    assume "\<not> recognised file"
    with rd lax show ?thesis by (simp add: processFile_default)
  qed
qed

theorem unmarshalToml_unmatched_keys_witness:
  "toml_Decode port_decoders ''Test = 1'' port_ty (VStruct [VInt 0])
     = (VStruct [VInt 0], [[''Test'']], None) \<and>
   unmarshalToml port_decoders ''Test = 1'' port_ty (VStruct [VInt 0]) True
     = (VStruct [VInt 0], Some (UnmatchedTomlKeysError [[''Test'']])) \<and>
   unmarshalToml port_decoders ''Test = 1'' port_ty (VStruct [VInt 0]) False
     = (VStruct [VInt 0], None) \<and>
   processFile port_decoders (example_process [] port_files) port_ty (VStruct [VInt 0]) ''cfg2'' True
     = (VStruct [VInt 0], Some (UnmatchedTomlKeysError [[''Test'']])) \<and>
   processFile port_decoders (example_process [] port_files) port_ty (VStruct [VInt 0]) ''cfg2'' False
     = (VStruct [VInt 0], None)"
proof -
  have dec: "toml_Decode port_decoders ''Test = 1'' port_ty (VStruct [VInt 0])
     = (VStruct [VInt 0], [[''Test'']], None)"
    by (simp add: fixture_defs)
  have rd: "ReadFile (example_process [] port_files) ''cfg2'' = Inr ''Test = 1''"
    by (simp add: fixture_defs)
  have ext: "\<not> recognised ''cfg2''"
    by (simp add: recognised_def HasSuffix_def)
  show ?thesis
    using unmarshalToml_unmatched_keys [of port_decoders "''Test = 1''" port_ty "VStruct [VInt 0]"
        "VStruct [VInt 0]" "[[''Test'']]" "example_process [] port_files" "''cfg2''"]
      dec rd ext
    by simp
qed

section \<open>The environment name\<close>

text \<open>
  Claim C8. \<open>GetEnvironment\<close> resolves the environment name in this order: a non-empty
  \<open>Environment\<close> of the session's configuration; otherwise a non-empty process variable
  \<open>CONFIGOR_ENV\<close>; otherwise \<open>test\<close> when the first program argument contains \<open>_test\<close> or
  ends with \<open>.test\<close> (the test pattern), and \<open>development\<close> when it does not.
\<close>

theorem GetEnvironment_precedence:
  "(Environment (Config c) \<noteq> [] \<longrightarrow> GetEnvironment c p = Inr (Environment (Config c))) \<and>
   (Environment (Config c) = [] \<and> Getenv p ''CONFIGOR_ENV'' \<noteq> [] \<longrightarrow>
      GetEnvironment c p = Inr (Getenv p ''CONFIGOR_ENV'')) \<and>
   (Environment (Config c) = [] \<and> Getenv p ''CONFIGOR_ENV'' = [] \<and> Args p = a # as \<longrightarrow>
      GetEnvironment c p =
        Inr (if (\<exists>u v. a = u @ ''_test'' @ v) \<or> (\<exists>u. a = u @ ''.test'') then ''test''
             else ''development''))"
  by (simp add: GetEnvironment_def testRegexp_MatchString_def Contains_iff HasSuffix_iff)

theorem GetEnvironment_precedence_witness:
  "GetEnvironment (example_Configor ''staging'' ''APP'')
      (example_process [(''CONFIGOR_ENV'', ''production'')] []) = Inr ''staging'' \<and>
   GetEnvironment (example_Configor [] ''APP'')
      (example_process [(''CONFIGOR_ENV'', ''production'')] []) = Inr ''production'' \<and>
   GetEnvironment (example_Configor [] ''APP'')
      ((example_process [] [])\<lparr>Args := [''/tmp/go-build1/b001/configor.test'']\<rparr>) = Inr ''test'' \<and>
   GetEnvironment (example_Configor [] ''APP'') (example_process [] []) = Inr ''development''"
proof -
  let ?p = "example_process [(''CONFIGOR_ENV'', ''production'')] []"
  let ?q = "(example_process [] [])\<lparr>Args := [''/tmp/go-build1/b001/configor.test'']\<rparr>"
  have 1: "Environment (Config (example_Configor ''staging'' ''APP'')) \<noteq> []"
    by (simp add: example_Configor_def)
  have 2: "Environment (Config (example_Configor [] ''APP'')) = [] \<and> Getenv ?p ''CONFIGOR_ENV'' \<noteq> []"
    by (simp add: example_Configor_def example_process_def zero_Config_def)
  have 3: "Environment (Config (example_Configor [] ''APP'')) = [] \<and> Getenv ?q ''CONFIGOR_ENV'' = []
      \<and> Args ?q = ''/tmp/go-build1/b001/configor.test'' # []"
    by (simp add: example_Configor_def example_process_def zero_Config_def)
  have 4: "Environment (Config (example_Configor [] ''APP'')) = []
      \<and> Getenv (example_process [] []) ''CONFIGOR_ENV'' = []
      \<and> Args (example_process [] []) = ''/usr/local/bin/app'' # []"
    by (simp add: example_Configor_def example_process_def zero_Config_def)
  have t: "\<exists>u. ''/tmp/go-build1/b001/configor.test'' = u @ ''.test''"
    by (rule exI [of _ "''/tmp/go-build1/b001/configor''"]) simp
  have nt: "\<not> ((\<exists>u v. ''/usr/local/bin/app'' = u @ ''_test'' @ v) \<or> (\<exists>u. ''/usr/local/bin/app'' = u @ ''.test''))"
    using Contains_iff [of "''/usr/local/bin/app''" "''_test''"]
      HasSuffix_iff [of "''/usr/local/bin/app''" "''.test''"]
    by (simp add: HasSuffix_def)
  show ?thesis
    using GetEnvironment_precedence [of "example_Configor ''staging'' ''APP''" ?p]
      GetEnvironment_precedence [of "example_Configor [] ''APP''" ?p]
      GetEnvironment_precedence [of "example_Configor [] ''APP''" ?q "''/tmp/go-build1/b001/configor.test''" "[]"]
      GetEnvironment_precedence [of "example_Configor [] ''APP''" "example_process [] []" "''/usr/local/bin/app''" "[]"]
      1 2 3 4 t nt
    by (simp add: example_Configor_def example_process_def zero_Config_def)
qed

section \<open>Required fields behind a nil pointer\<close>

text \<open>
  Claim C9. After \<open>Load\<close> returns without error every walked field tagged
  \<open>required:"true"\<close> should hold a non-zero value. The code checks the fresh value it made
  for a nil pointer instead of the field: with \<open>APP_INTEGER=5\<close> a nil field
  \<open>I *int\<close> tagged \<open>required:"true"\<close> passes the check and is still nil, its zero value,
  when \<open>Load\<close> returns without error, where the same field of type \<open>int\<close> holds 5.
\<close>

theorem required_nil_pointer_passes_blank:
  "Load (example_Configor [] ''APP'') (example_process [(''APP_INTEGER'', ''5'')] []) port_decoders
       (TStruct [(integer_field, TPtr TInt)]) (VStruct [VPtr None]) []
     = (VStruct [VPtr None], None) \<and>
   Tag_Get (Tag integer_field) ''required'' = ''true'' \<and>
   zero (TPtr TInt) = VPtr None \<and>
   Load (example_Configor [] ''APP'') (example_process [(''APP_INTEGER'', ''5'')] []) port_decoders
       (TStruct [(integer_field, TInt)]) (VStruct [VInt 0]) []
     = (VStruct [VInt 5], None)"
  by (simp add: load_simps fixture_defs example_Configor_def integer_field_def walk_simps)

section \<open>Nil pointer fields\<close>

text \<open>
  Claim C10. A pointer-typed field of the walked struct that is nil when the walk begins
  is still nil when the walk, and so \<open>Load\<close>, returns, with or without an error: the
  walk works on a fresh zero value of the pointee's type, which is never stored back, so
  what the environment variables and \<open>default\<close> tags give for the field and its nested
  members is lost; only the error of that walk is kept.
\<close>

theorem nil_pointer_field_stays_nil:
  "i < length fds \<and> i < length vs \<and> snd (fds ! i) = TPtr t \<and> vs ! i = VPtr None \<longrightarrow>
     fst (processField c p d (fst (fds ! i)) (TPtr t) (VPtr None) pfxs) = VPtr None \<and>
     (PkgPath (fst (fds ! i)) = [] \<and> (\<forall>u. t \<noteq> TPtr u) \<longrightarrow>
        snd (processField c p d (fst (fds ! i)) (TPtr t) (VPtr None) pfxs)
          = snd (processField c p d (fst (fds ! i)) t (zero t) pfxs)) \<and>
     (\<exists>vs'. fst (processTags c p d (TStruct fds) (VStruct vs) pfxs) = VStruct vs' \<and>
            length vs' = length vs \<and> vs' ! i = VPtr None) \<and>
     (getConfigurationFiles c p files = Inr resolved \<and>
      processFiles c p d (TStruct fds) config resolved = (VStruct vs, None) \<longrightarrow>
        (\<exists>vs'. fst (Load c p d (TStruct fds) config files) = VStruct vs' \<and>
               length vs' = length vs \<and> vs' ! i = VPtr None))"
proof (intro impI, elim conjE)
  assume i: "i < length fds" "i < length vs" and t: "snd (fds ! i) = TPtr t" and nil: "vs ! i = VPtr None"
  have walk: "\<exists>vs'. fst (processTags c p d (TStruct fds) (VStruct vs) q) = VStruct vs' \<and>
            length vs' = length vs \<and> vs' ! i = VPtr None" for q
  proof -
    let ?vs' = "fst (processTags_fields c p d fds vs q)"
    have "fst (processTags c p d (TStruct fds) (VStruct vs) q) = VStruct ?vs'"
      by (simp split: prod.splits)
    moreover have "length ?vs' = length vs" by (rule processTags_fields_length)
    moreover have "?vs' ! i = VPtr None"
      using processTags_fields_nth [OF i, of c p d q] t nil processField_nil_pointer by auto
    ultimately show ?thesis by blast
  qed
  show "fst (processField c p d (fst (fds ! i)) (TPtr t) (VPtr None) pfxs) = VPtr None \<and>
     (PkgPath (fst (fds ! i)) = [] \<and> (\<forall>u. t \<noteq> TPtr u) \<longrightarrow>
        snd (processField c p d (fst (fds ! i)) (TPtr t) (VPtr None) pfxs)
          = snd (processField c p d (fst (fds ! i)) t (zero t) pfxs)) \<and>
     (\<exists>vs'. fst (processTags c p d (TStruct fds) (VStruct vs) pfxs) = VStruct vs' \<and>
            length vs' = length vs \<and> vs' ! i = VPtr None) \<and>
     (getConfigurationFiles c p files = Inr resolved \<and>
      processFiles c p d (TStruct fds) config resolved = (VStruct vs, None) \<longrightarrow>
        (\<exists>vs'. fst (Load c p d (TStruct fds) config files) = VStruct vs' \<and>
               length vs' = length vs \<and> vs' ! i = VPtr None))"
  proof (intro conjI impI)
    show "fst (processField c p d (fst (fds ! i)) (TPtr t) (VPtr None) pfxs) = VPtr None"
      by (rule processField_nil_pointer)
  next
    assume "PkgPath (fst (fds ! i)) = [] \<and> (\<forall>u. t \<noteq> TPtr u)"
    then show "snd (processField c p d (fst (fds ! i)) (TPtr t) (VPtr None) pfxs)
          = snd (processField c p d (fst (fds ! i)) t (zero t) pfxs)"
      by (simp add: processField_nil_pointer_error)
  next
    show "\<exists>vs'. fst (processTags c p d (TStruct fds) (VStruct vs) pfxs) = VStruct vs' \<and>
            length vs' = length vs \<and> vs' ! i = VPtr None"
      by (rule walk)
  next
    assume "getConfigurationFiles c p files = Inr resolved \<and>
      processFiles c p d (TStruct fds) config resolved = (VStruct vs, None)"
    then have "Load c p d (TStruct fds) config files
      = processTags c p d (TStruct fds) (VStruct vs) (if globalPrefix c \<noteq> [] then [globalPrefix c] else [])"
      by (simp add: Load_after_files)
    with walk show "\<exists>vs'. fst (Load c p d (TStruct fds) config files) = VStruct vs' \<and>
               length vs' = length vs \<and> vs' ! i = VPtr None"
      by simp
  qed
qed

theorem nil_pointer_field_stays_nil_witness:
  "processTags (example_Configor [] ''Configor'') (example_process contact_env []) port_decoders
       (TStruct holder_fields) (VStruct [VPtr (Some (VStruct [VString [], VString [], VString []]))])
       [''Configor'']
     = (VStruct [VPtr (Some (VStruct [VString ''alice'', VString [], VString ''bob'']))], None) \<and>
   processTags (example_Configor [] ''Configor'') (example_process contact_env []) port_decoders
       (TStruct holder_fields) (VStruct [VPtr None]) [''Configor'']
     = (VStruct [VPtr None], None) \<and>
   processTags (example_Configor [] ''Configor'') (example_process [] []) port_decoders
       (TStruct holder_fields) (VStruct [VPtr None]) [''Configor'']
     = (VStruct [VPtr None],
        Some (ErrorString ''CONFIGOR_CONTACT_PTR_EMAIL is required, but blank'')) \<and>
   (\<exists>vs'. fst (Load (example_Configor [] ''Configor'') (example_process contact_env []) port_decoders
                 (TStruct holder_fields) (VStruct [VPtr None]) [])
             = VStruct vs' \<and>
          length vs' = length [VPtr None] \<and> vs' ! 0 = VPtr None)"
proof -
  let ?c = "example_Configor [] ''Configor''"
  let ?p = "example_process contact_env []"
  have 1: "processTags ?c ?p port_decoders (TStruct holder_fields)
       (VStruct [VPtr (Some (VStruct [VString [], VString [], VString []]))]) [''Configor'']
     = (VStruct [VPtr (Some (VStruct [VString ''alice'', VString [], VString ''bob'']))], None)"
    by (simp add: holder_fields_def contact_fields_def contact_env_def fixture_defs
        example_Configor_def walk_simps)
  have 2: "processTags ?c ?p port_decoders (TStruct holder_fields) (VStruct [VPtr None]) [''Configor'']
     = (VStruct [VPtr None], None)"
    by (simp add: holder_fields_def contact_fields_def contact_env_def fixture_defs
        example_Configor_def walk_simps)
  have 3: "processTags ?c (example_process [] []) port_decoders (TStruct holder_fields)
       (VStruct [VPtr None]) [''Configor'']
     = (VStruct [VPtr None], Some (ErrorString ''CONFIGOR_CONTACT_PTR_EMAIL is required, but blank''))"
    by (simp add: holder_fields_def contact_fields_def fixture_defs example_Configor_def walk_simps)
  have h: "0 < length holder_fields" "0 < length [VPtr None]"
    "snd (holder_fields ! 0) = TPtr (TStruct contact_fields)" "[VPtr None] ! 0 = VPtr None"
    by (simp_all add: holder_fields_def)
  have f: "getConfigurationFiles ?c ?p [] = Inr []"
    "processFiles ?c ?p port_decoders (TStruct holder_fields) (VStruct [VPtr None]) []
       = (VStruct [VPtr None], None)"
    by (simp_all add: getConfigurationFiles_def example_Configor_def zero_Config_def)
  have 4: "\<exists>vs'. fst (Load ?c ?p port_decoders (TStruct holder_fields) (VStruct [VPtr None]) [])
             = VStruct vs' \<and> length vs' = length [VPtr None] \<and> vs' ! 0 = VPtr None"
    using nil_pointer_field_stays_nil [of 0 holder_fields "[VPtr None]" "TStruct contact_fields"
        ?c ?p port_decoders "[''Configor'']" "[]" "[]" "VStruct [VPtr None]"] h f
    by blast
  from 1 2 3 4 show ?thesis by blast
qed

end
